theory Spec2Isabelle
  imports Main
begin

section \<open>JavaScript strings\<close>

text \<open>
  A JavaScript string is a sequence of UTF-16 code units: \<open>length\<close>, \<open>trim\<close>,
  \<open>includes\<close>, \<open>replace\<close> and the regular expressions of the source all work on
  code units. A code unit is modelled by its number; a string literal of the source is
  written as the list of its code units (hexadecimal), an ASCII literal through
  \<open>ascii\<close>.
\<close>

type_synonym jstring = "nat list"

definition ascii :: "string \<Rightarrow> jstring" where
  "ascii s = map of_char s"

text \<open>The code units \<open>String.prototype.trim\<close> strips: WhiteSpace and LineTerminator.\<close>

definition isWhiteSpace :: "nat \<Rightarrow> bool" where
  "isWhiteSpace c =
     (c \<in> set [0x9, 0xA, 0xB, 0xC, 0xD, 0x20, 0xA0, 0x1680, 0x2028, 0x2029, 0x202F,
                0x205F, 0x3000, 0xFEFF]
      \<or> (0x2000 \<le> c \<and> c \<le> 0x200A))"

definition js_trim :: "jstring \<Rightarrow> jstring" where
  "js_trim s = rev (dropWhile isWhiteSpace (rev (dropWhile isWhiteSpace s)))"

definition startsWith :: "jstring \<Rightarrow> jstring \<Rightarrow> bool" where
  "startsWith s t = (take (length t) s = t)"

text \<open>\<open>s.includes(t)\<close>: \<open>t\<close> occurs in \<open>s\<close> as a contiguous run.\<close>

fun js_includes :: "jstring \<Rightarrow> jstring \<Rightarrow> bool" where
  "js_includes [] t = (t = [])"
| "js_includes (c # cs) t = (startsWith (c # cs) t \<or> js_includes cs t)"

text \<open>Truthiness of an optional string: \<open>undefined\<close> and \<open>''\<close> are falsy.\<close>

definition truthy :: "jstring option \<Rightarrow> bool" where
  "truthy v = (case v of None \<Rightarrow> False | Some s \<Rightarrow> s \<noteq> [])"

text \<open>
  What code can throw or reject with: an \<open>Error\<close> object (also \<open>SyntaxError\<close> and
  \<open>TypeError\<close>) with its message; the plain \<open>{code, message}\<close> object the HTTP
  client rejects with; a value with no \<open>message\<close> property; \<open>null\<close>;
  \<open>undefined\<close>. Reading \<open>err.message\<close> gives the message, \<open>undefined\<close> for a
  value without one, and throws a \<open>TypeError\<close> on \<open>null\<close> and on \<open>undefined\<close>.
  The message of such a \<open>TypeError\<close> names the value and the property read
  (\<open>Cannot read properties of null (reading 'message')\<close>, in the wording of V8).
\<close>

datatype thrown =
    JsError jstring
  | HttpError "int + jstring" jstring
  | NoMessage
  | NullValue
  | UndefinedValue

definition typeErrorReading :: "string \<Rightarrow> string \<Rightarrow> thrown" where
  "typeErrorReading v p =
     JsError (ascii ''Cannot read properties of '' @ ascii v @ ascii '' (reading '' @ [0x27] @
              ascii p @ [0x27] @ ascii '')'')"

fun messageOf :: "thrown \<Rightarrow> thrown + jstring option" where
  "messageOf (JsError m) = Inr (Some m)"
| "messageOf (HttpError c m) = Inr (Some m)"
| "messageOf NoMessage = Inr None"
| "messageOf NullValue = Inl (typeErrorReading ''null'' ''message'')"
| "messageOf UndefinedValue = Inl (typeErrorReading ''undefined'' ''message'')"

section \<open>Regular expressions\<close>

text \<open>
  The regular expressions of \<open>parseQuery\<close>, as abstract syntax, with the backtracking
  semantics of ECMAScript (no flags but \<open>g\<close>): a match is searched at the leftmost
  start position, and at one position the alternatives are tried in the order
  backtracking tries them.
\<close>

datatype clsitem = COne nat | CRange nat nat | CDigit bool | CWord bool | CSpace bool

datatype regex =
    REmpty
  | RChar nat
  | RAny
  | RClass bool "clsitem list"
  | RSeq regex regex
  | RAlt regex regex
  | RRep nat "nat option" bool regex
  | RGroup nat regex
  | RLook bool regex
  | RBol
  | REol
  | RWordB bool
  | RBackRef nat

text \<open>
  \<open>RClass neg items\<close> is \<open>[...]\<close> (\<open>[^...]\<close> when \<open>neg\<close>); \<open>CDigit True\<close> is
  \<open>\d\<close> and \<open>CDigit False\<close> is \<open>\D\<close> (likewise \<open>\w\<close>, \<open>\s\<close>);
  \<open>RRep min max greedy r\<close> is a quantifier (\<open>max = None\<close>: unbounded);
  \<open>RGroup k r\<close> is the \<open>k\<close>-th capturing group; \<open>RLook True r\<close> is \<open>(?=r)\<close> and
  \<open>RLook False r\<close> is \<open>(?!r)\<close>; \<open>RWordB True\<close> is \<open>\b\<close>.
\<close>

definition isDigit :: "nat \<Rightarrow> bool" where
  "isDigit c = (0x30 \<le> c \<and> c \<le> 0x39)"

definition isWordChar :: "nat \<Rightarrow> bool" where
  "isWordChar c =
     ((0x61 \<le> c \<and> c \<le> 0x7A) \<or> (0x41 \<le> c \<and> c \<le> 0x5A) \<or> isDigit c \<or> c = 0x5F)"

definition isLineTerminator :: "nat \<Rightarrow> bool" where
  "isLineTerminator c = (c \<in> set [0xA, 0xD, 0x2028, 0x2029])"

fun inItem :: "nat \<Rightarrow> clsitem \<Rightarrow> bool" where
  "inItem c (COne d) = (c = d)"
| "inItem c (CRange a b) = (a \<le> c \<and> c \<le> b)"
| "inItem c (CDigit p) = (isDigit c = p)"
| "inItem c (CWord p) = (isWordChar c = p)"
| "inItem c (CSpace p) = (isWhiteSpace c = p)"

definition inClass :: "nat \<Rightarrow> bool \<Rightarrow> clsitem list \<Rightarrow> bool" where
  "inClass c neg items = ((\<exists>it \<in> set items. inItem c it) \<noteq> neg)"

text \<open>The capturing groups inside a regular expression: a quantifier resets them.\<close>

fun groupsOf :: "regex \<Rightarrow> nat list" where
  "groupsOf (RSeq a b) = groupsOf a @ groupsOf b"
| "groupsOf (RAlt a b) = groupsOf a @ groupsOf b"
| "groupsOf (RRep mn mx g r) = groupsOf r"
| "groupsOf (RGroup k r) = k # groupsOf r"
| "groupsOf (RLook p r) = groupsOf r"
| "groupsOf r = []"

text \<open>
  A matcher state is the current index and the captures made so far (group number,
  start and end; the latest entry of a group counts).
\<close>

type_synonym captures = "(nat \<times> nat \<times> nat) list"

type_synonym mstate = "nat \<times> captures"

definition capText :: "jstring \<Rightarrow> captures \<Rightarrow> nat \<Rightarrow> jstring option" where
  "capText s cs k = map_option (\<lambda>(b, e). take (e - b) (drop b s)) (map_of cs k)"

fun rmin :: "regex \<Rightarrow> nat" where
  "rmin (RRep mn mx g r) = mn"
| "rmin r = 0"

text \<open>
  \<open>rmatch s r st\<close>: the states in which \<open>r\<close> can end when it starts in \<open>st\<close>, in the
  order in which backtracking reaches them. For a quantifier this is RepeatMatcher of
  the language specification: the captures of the body are reset before each
  iteration, and once the minimum is reached an iteration that consumes nothing is
  rejected (a match never moves backwards, \<open>rmatch_bounds\<close> below, so such an iteration
  is one that does not end at a greater index).
\<close>

function rmatch :: "jstring \<Rightarrow> regex \<Rightarrow> mstate \<Rightarrow> mstate list" where
  "rmatch s REmpty st = [st]"
| "rmatch s (RChar c) (i, cs) = (if i < length s \<and> s ! i = c then [(Suc i, cs)] else [])"
| "rmatch s RAny (i, cs) =
     (if i < length s \<and> \<not> isLineTerminator (s ! i) then [(Suc i, cs)] else [])"
| "rmatch s (RClass neg items) (i, cs) =
     (if i < length s \<and> inClass (s ! i) neg items then [(Suc i, cs)] else [])"
| "rmatch s (RSeq a b) st = concat (map (rmatch s b) (rmatch s a st))"
| "rmatch s (RAlt a b) st = rmatch s a st @ rmatch s b st"
| "rmatch s (RRep mn mx g r) (i, cs) =
     (if mx = Some 0 then [(i, cs)]
      else
        let cs0 = filter (\<lambda>(k, be). k \<notin> set (groupsOf r)) cs;
            its = filter (\<lambda>(j, cj). mn \<noteq> 0 \<or> (i < j \<and> j \<le> length s))
                    (rmatch s r (i, cs0));
            more = concat (map (rmatch s (RRep (mn - 1) (map_option (\<lambda>m. m - 1) mx) g r)) its)
        in if mn \<noteq> 0 then more else if g then more @ [(i, cs)] else (i, cs) # more)"
| "rmatch s (RGroup k r) (i, cs) = map (\<lambda>(j, cj). (j, (k, i, j) # cj)) (rmatch s r (i, cs))"
| "rmatch s (RLook p r) (i, cs) =
     (case rmatch s r (i, cs) of
        [] \<Rightarrow> (if p then [] else [(i, cs)])
      | (j, cj) # rest \<Rightarrow> (if p then [(i, cj)] else []))"
| "rmatch s RBol (i, cs) = (if i = 0 then [(i, cs)] else [])"
| "rmatch s REol (i, cs) = (if i = length s then [(i, cs)] else [])"
| "rmatch s (RWordB p) (i, cs) =
     (let a = (0 < i \<and> i - 1 < length s \<and> isWordChar (s ! (i - 1)));
          b = (i < length s \<and> isWordChar (s ! i))
      in if (a \<noteq> b) = p then [(i, cs)] else [])"
| "rmatch s (RBackRef k) (i, cs) =
     (case capText s cs k of
        None \<Rightarrow> [(i, cs)]
      | Some t \<Rightarrow> (if startsWith (drop i s) t then [(i + length t, cs)] else []))"
  by pat_completeness auto
termination
  by (relation "inv_image (less_than <*lex*> less_than <*lex*> less_than)
        (\<lambda>(s, r, i, cs). (size r, rmin r, length s - i))") auto

declare rmatch.simps [simp del]

text \<open>
  \<open>execFrom s r i\<close> is \<open>RegExp.prototype.exec\<close> with \<open>lastIndex = i\<close>: the first
  start position from \<open>i\<close> on at which \<open>r\<close> matches, with the end of the match and its
  captures.
\<close>

function execFrom :: "jstring \<Rightarrow> regex \<Rightarrow> nat \<Rightarrow> (nat \<times> nat \<times> captures) option" where
  "execFrom s r i =
     (if length s < i then None
      else case rmatch s r (i, []) of
             [] \<Rightarrow> execFrom s r (Suc i)
           | (j, cs) # rest \<Rightarrow> Some (i, j, cs))"
  by pat_completeness auto
termination
  by (relation "measure (\<lambda>(s, r, i). Suc (length s) - i)") auto

declare execFrom.simps [simp del]

lemma execFrom_ge: "execFrom s r i = Some (b, e, cs) \<Longrightarrow> i \<le> b \<and> b \<le> length s"
proof (induction s r i rule: execFrom.induct)
  case (1 s r i)
  show ?case
  proof (cases "rmatch s r (i, [])")
    case Nil
    with "1.prems" have "\<not> length s < i" and "execFrom s r (Suc i) = Some (b, e, cs)"
      by (auto simp: execFrom.simps [of s r i] split: if_splits)
    with "1.IH" Nil show ?thesis by fastforce
  next
    case (Cons a list)
    with "1.prems" show ?thesis
      by (auto simp: execFrom.simps [of s r i] split: if_splits prod.splits)
  qed
qed

text \<open>\<open>s.match(r)\<close> for a regular expression without the \<open>g\<close> flag.\<close>

definition js_match :: "jstring \<Rightarrow> regex \<Rightarrow> (nat \<times> nat \<times> captures) option" where
  "js_match s r = execFrom s r 0"

text \<open>\<open>s.replace(r, '')\<close> without the \<open>g\<close> flag: the first match is removed.\<close>

definition replaceFirst :: "jstring \<Rightarrow> regex \<Rightarrow> jstring" where
  "replaceFirst s r =
     (case execFrom s r 0 of None \<Rightarrow> s | Some (b, e, cs) \<Rightarrow> take b s @ drop e s)"

text \<open>
  \<open>s.replace(r, '')\<close> with the \<open>g\<close> flag, from position \<open>pos\<close> on: every match is
  removed; after an empty match the search resumes one code unit further.
\<close>

function replaceAllFrom :: "jstring \<Rightarrow> regex \<Rightarrow> nat \<Rightarrow> jstring" where
  "replaceAllFrom s r pos =
     (if length s < pos then []
      else case execFrom s r pos of
             None \<Rightarrow> drop pos s
           | Some (b, e, cs) \<Rightarrow>
               take (b - pos) (drop pos s) @
               (if b < e then replaceAllFrom s r e
                else take 1 (drop b s) @ replaceAllFrom s r (Suc b)))"
  by pat_completeness auto
termination
proof (relation "measure (\<lambda>(s, r, pos). Suc (length s) - pos)", goal_cases)
  case 1
  show ?case by simp
next
  case (2 s r pos x2 b y e cs)
  then have "pos \<le> b" using execFrom_ge [of s r pos b e cs] by simp
  with 2 show ?case by auto
next
  case (3 s r pos x2 b y e cs)
  then have "pos \<le> b" using execFrom_ge [of s r pos b e cs] by simp
  with 3 show ?case by auto
qed

declare replaceAllFrom.simps [simp del]

definition replaceAll :: "jstring \<Rightarrow> regex \<Rightarrow> jstring" where
  "replaceAll s r = replaceAllFrom s r 0"

subsection \<open>The \<open>RegExp\<close> constructor\<close>

text \<open>
  \<open>parseQuery\<close> builds one regular expression at run time, from text of the query, so
  the model needs the constructor: the pattern grammar of ECMAScript without the
  \<open>u\<close> flag (with the extensions of its Annex B, which every engine implements), read in
  one pass with a stack of open groups. \<open>(?<\<close> (lookbehind, named groups) is a syntax
  error here: the source text that \<open>parseQuery\<close> adds is at most four code units, too
  few to close such a group, so every pattern it builds with \<open>(?<\<close> is a syntax error.
\<close>

definition syntaxError :: thrown where
  "syntaxError = JsError (ascii ''Invalid regular expression'')"

datatype gkind = GTop | GCapture nat | GNonCapture | GLookahead bool

text \<open>
  An open group: its kind, its finished alternatives (latest first) and the terms of
  the alternative being read (latest first), each with whether a quantifier may follow.
\<close>

type_synonym frame = "gkind \<times> regex list \<times> (regex \<times> bool) list"

definition seqOf :: "(regex \<times> bool) list \<Rightarrow> regex" where
  "seqOf ts = foldl (\<lambda>acc t. RSeq (fst t) acc) REmpty ts"

fun altOf :: "regex list \<Rightarrow> regex" where
  "altOf [] = REmpty"
| "altOf [a] = a"
| "altOf (a # as) = RAlt a (altOf as)"

fun frameRegex :: "frame \<Rightarrow> regex" where
  "frameRegex (k, alts, ts) = altOf (rev (seqOf ts # alts))"

fun pushTerm :: "regex \<Rightarrow> bool \<Rightarrow> frame list \<Rightarrow> frame list" where
  "pushTerm t q [] = [(GTop, [], [(t, q)])]"
| "pushTerm t q ((k, alts, ts) # fs) = (k, alts, (t, q) # ts) # fs"

definition decVal :: "jstring \<Rightarrow> nat" where
  "decVal ds = foldl (\<lambda>a c. 10 * a + (c - 0x30)) 0 ds"

definition isOctal :: "nat \<Rightarrow> bool" where
  "isOctal c = (0x30 \<le> c \<and> c \<le> 0x37)"

definition hexDigit :: "nat \<Rightarrow> nat option" where
  "hexDigit c =
     (if isDigit c then Some (c - 0x30)
      else if 0x61 \<le> c \<and> c \<le> 0x66 then Some (c - 0x57)
      else if 0x41 \<le> c \<and> c \<le> 0x46 then Some (c - 0x37)
      else None)"

definition hexVal :: "nat \<Rightarrow> jstring \<Rightarrow> nat option" where
  "hexVal n cs =
     (if n \<le> length cs \<and> list_all (\<lambda>c. hexDigit c \<noteq> None) (take n cs)
      then Some (foldl (\<lambda>a c. 16 * a + (case hexDigit c of Some v \<Rightarrow> v | None \<Rightarrow> 0)) 0 (take n cs))
      else None)"

definition isAsciiLetter :: "nat \<Rightarrow> bool" where
  "isAsciiLetter c = ((0x61 \<le> c \<and> c \<le> 0x7A) \<or> (0x41 \<le> c \<and> c \<le> 0x5A))"

text \<open>
  CharacterEscape, for the code unit \<open>c\<close> after the backslash and the text \<open>rest\<close>
  after it: the code unit denoted and how many code units after the backslash belong
  to the escape. \<open>\c\<close> without a control letter is a backslash, and the \<open>c\<close> is read
  again as a pattern character.
\<close>

definition charEscape :: "nat \<Rightarrow> jstring \<Rightarrow> bool \<Rightarrow> nat \<times> nat" where
  "charEscape c rest inCls =
     (if c = 0x74 then (0x9, 1)
      else if c = 0x6E then (0xA, 1)
      else if c = 0x76 then (0xB, 1)
      else if c = 0x66 then (0xC, 1)
      else if c = 0x72 then (0xD, 1)
      else if c = 0x63 then
        (case rest of
           [] \<Rightarrow> (0x5C, 0)
         | l # ls \<Rightarrow>
             if isAsciiLetter l \<or> (inCls \<and> (isDigit l \<or> l = 0x5F)) then (l mod 32, 2)
             else (0x5C, 0))
      else if c = 0x78 then
        (case hexVal 2 rest of Some v \<Rightarrow> (v, 3) | None \<Rightarrow> (c, 1))
      else if c = 0x75 then
        (case hexVal 4 rest of Some v \<Rightarrow> (v, 5) | None \<Rightarrow> (c, 1))
      else if isOctal c then
        (let ods = takeWhile isOctal (take (if c \<le> 0x33 then 3 else 2) (c # rest))
         in (foldl (\<lambda>a d. 8 * a + (d - 0x30)) 0 ods, length ods))
      else (c, 1))"

text \<open>
  AtomEscape, for the text after the backslash: the term, whether a quantifier may
  follow it, and the code units read. \<open>ng\<close> is the number of capturing groups of the
  whole pattern: a decimal escape up to \<open>ng\<close> is a backreference.
\<close>

definition parseAtomEscape :: "nat \<Rightarrow> jstring \<Rightarrow> thrown + (regex \<times> bool \<times> nat)" where
  "parseAtomEscape ng cs =
     (case cs of
        [] \<Rightarrow> Inl syntaxError
      | c # rest \<Rightarrow>
          if c = 0x64 then Inr (RClass False [CDigit True], True, 1)
          else if c = 0x44 then Inr (RClass False [CDigit False], True, 1)
          else if c = 0x77 then Inr (RClass False [CWord True], True, 1)
          else if c = 0x57 then Inr (RClass False [CWord False], True, 1)
          else if c = 0x73 then Inr (RClass False [CSpace True], True, 1)
          else if c = 0x53 then Inr (RClass False [CSpace False], True, 1)
          else if c = 0x62 then Inr (RWordB True, False, 1)
          else if c = 0x42 then Inr (RWordB False, False, 1)
          else if isDigit c \<and> c \<noteq> 0x30 \<and> decVal (takeWhile isDigit cs) \<le> ng
            then Inr (RBackRef (decVal (takeWhile isDigit cs)), True,
                      length (takeWhile isDigit cs))
          else (case charEscape c rest False of (u, n) \<Rightarrow> Inr (RChar u, True, n)))"

subsubsection \<open>Character classes\<close>

datatype catom = ADash | AChar nat | ASet clsitem

definition parseClassEscape :: "jstring \<Rightarrow> (catom \<times> nat) option" where
  "parseClassEscape cs =
     (case cs of
        [] \<Rightarrow> None
      | c # rest \<Rightarrow>
          if c = 0x64 then Some (ASet (CDigit True), 1)
          else if c = 0x44 then Some (ASet (CDigit False), 1)
          else if c = 0x77 then Some (ASet (CWord True), 1)
          else if c = 0x57 then Some (ASet (CWord False), 1)
          else if c = 0x73 then Some (ASet (CSpace True), 1)
          else if c = 0x53 then Some (ASet (CSpace False), 1)
          else if c = 0x62 then Some (AChar 0x8, 1)
          else (case charEscape c rest True of (u, n) \<Rightarrow> Some (AChar u, n)))"

text \<open>
  The atoms of a class up to its closing bracket, and the code units read (the
  bracket included); \<open>None\<close> when the class is not closed.
\<close>

function classAtoms :: "jstring \<Rightarrow> (catom list \<times> nat) option" where
  "classAtoms [] = None"
| "classAtoms (c # rest) =
     (if c = 0x5D then Some ([], 1)
      else if c = 0x5C then
        (case parseClassEscape rest of
           None \<Rightarrow> None
         | Some (a, n) \<Rightarrow>
             map_option (\<lambda>(as, k). (a # as, k + 1 + n)) (classAtoms (drop n rest)))
      else map_option (\<lambda>(as, k). ((if c = 0x2D then ADash else AChar c) # as, k + 1))
             (classAtoms rest))"
  by pat_completeness auto
termination
  by (relation "measure length") auto

fun atomChar :: "catom \<Rightarrow> nat option" where
  "atomChar ADash = Some 0x2D"
| "atomChar (AChar c) = Some c"
| "atomChar (ASet it) = None"

fun atomItem :: "catom \<Rightarrow> clsitem" where
  "atomItem ADash = COne 0x2D"
| "atomItem (AChar c) = COne c"
| "atomItem (ASet it) = it"

text \<open>
  ClassRanges: \<open>a-b\<close> is a range (a syntax error when out of order); with a class
  escape on either side the dash is a character. \<open>None\<close> is the syntax error.
\<close>

fun mkItems :: "catom list \<Rightarrow> clsitem list option" where
  "mkItems (a # ADash # b # rest) =
     (case (atomChar a, atomChar b) of
        (Some x, Some y) \<Rightarrow>
          (if y < x then None else map_option (\<lambda>is. CRange x y # is) (mkItems rest))
      | _ \<Rightarrow> map_option (\<lambda>is. atomItem a # COne 0x2D # atomItem b # is) (mkItems rest))"
| "mkItems (a # rest) = map_option (\<lambda>is. atomItem a # is) (mkItems rest)"
| "mkItems [] = Some []"

definition parseClass :: "jstring \<Rightarrow> thrown + (regex \<times> nat)" where
  "parseClass cs =
     (let neg = startsWith cs [0x5E];
          body = (if neg then drop 1 cs else cs)
      in case classAtoms body of
           None \<Rightarrow> Inl syntaxError
         | Some (atoms, n) \<Rightarrow>
             (case mkItems atoms of
                None \<Rightarrow> Inl syntaxError
              | Some items \<Rightarrow> Inr (RClass neg items, n + (if neg then 1 else 0))))"

subsubsection \<open>Quantifiers\<close>

text \<open>
  \<open>{n}\<close>, \<open>{n,}\<close>, \<open>{n,m}\<close> for the text after the brace: the bounds and the code
  units read; \<open>None\<close> when the brace is a plain character.
\<close>

definition bracedQuant :: "jstring \<Rightarrow> (nat \<times> nat option \<times> nat) option" where
  "bracedQuant cs =
     (let d1 = takeWhile isDigit cs; r1 = dropWhile isDigit cs
      in if d1 = [] then None
         else (case r1 of
                 [] \<Rightarrow> None
               | c # r2 \<Rightarrow>
                   if c = 0x7D then Some (decVal d1, Some (decVal d1), length d1 + 1)
                   else if c = 0x2C then
                     (let d2 = takeWhile isDigit r2; r3 = dropWhile isDigit r2
                      in case r3 of
                           [] \<Rightarrow> None
                         | c' # r4 \<Rightarrow>
                             if c' = 0x7D
                             then Some (decVal d1, if d2 = [] then None else Some (decVal d2),
                                        length d1 + length d2 + 2)
                             else None)
                   else None))"

text \<open>
  A quantifier applies to the latest term, when that term may take one; a \<open>?\<close> after
  it makes it lazy. \<open>n\<close> is the number of code units of the quantifier after its first.
\<close>

definition quantify ::
  "nat \<Rightarrow> nat option \<Rightarrow> jstring \<Rightarrow> frame list \<Rightarrow> nat \<Rightarrow> nat
   \<Rightarrow> thrown + ((frame list \<times> nat) \<times> nat)" where
  "quantify mn mx after stack nxt n =
     (case stack of
        (k, alts, (t, True) # ts) # fs \<Rightarrow>
          (let lazy = startsWith after [0x3F]
           in Inr (((k, alts, (RRep mn mx (\<not> lazy) t, False) # ts) # fs, nxt),
                   n + (if lazy then 1 else 0)))
      | _ \<Rightarrow> Inl syntaxError)"

subsubsection \<open>The parser\<close>

text \<open>The capturing groups of a pattern: the parentheses not followed by \<open>?\<close>.\<close>

function countGroups :: "jstring \<Rightarrow> bool \<Rightarrow> nat" where
  "countGroups [] inCls = 0"
| "countGroups (c # rest) inCls =
     (if c = 0x5C then countGroups (drop 1 rest) inCls
      else if inCls then countGroups rest (c \<noteq> 0x5D)
      else if c = 0x5B then countGroups rest True
      else if c = 0x28 then
        (if startsWith rest [0x3F] then countGroups rest False
         else Suc (countGroups rest False))
      else countGroups rest False)"
  by pat_completeness auto
termination
  by (relation "measure (\<lambda>(cs, b). length cs)") auto

text \<open>
  One step: the code unit \<open>c\<close>, the text \<open>rest\<close> after it, the stack of open groups
  and the number of the next capturing group; the result is the new stack and how many
  code units of \<open>rest\<close> the step has read.
\<close>

definition pstep ::
  "nat \<Rightarrow> nat \<Rightarrow> jstring \<Rightarrow> frame list \<times> nat \<Rightarrow> thrown + ((frame list \<times> nat) \<times> nat)" where
  "pstep ng c rest st =
     (case st of (stack, nxt) \<Rightarrow>
        if c = 0x28 then
          (if startsWith rest [0x3F, 0x3A] then Inr (((GNonCapture, [], []) # stack, nxt), 2)
           else if startsWith rest [0x3F, 0x3D]
             then Inr (((GLookahead True, [], []) # stack, nxt), 2)
           else if startsWith rest [0x3F, 0x21]
             then Inr (((GLookahead False, [], []) # stack, nxt), 2)
           else if startsWith rest [0x3F] then Inl syntaxError
           else Inr (((GCapture nxt, [], []) # stack, Suc nxt), 0))
        else if c = 0x29 then
          (case stack of
             f # g # fs \<Rightarrow>
               (let node = frameRegex f;
                    term = (case fst f of
                              GCapture k \<Rightarrow> RGroup k node
                            | GLookahead p \<Rightarrow> RLook p node
                            | _ \<Rightarrow> node)
                in Inr ((pushTerm term True (g # fs), nxt), 0))
           | _ \<Rightarrow> Inl syntaxError)
        else if c = 0x7C then
          (case stack of
             (k, alts, ts) # fs \<Rightarrow> Inr (((k, seqOf ts # alts, []) # fs, nxt), 0)
           | [] \<Rightarrow> Inl syntaxError)
        else if c = 0x2A then quantify 0 None rest stack nxt 0
        else if c = 0x2B then quantify 1 None rest stack nxt 0
        else if c = 0x3F then quantify 0 (Some 1) rest stack nxt 0
        else if c = 0x7B then
          (case bracedQuant rest of
             None \<Rightarrow> Inr ((pushTerm (RChar c) True stack, nxt), 0)
           | Some (mn, mx, n) \<Rightarrow>
               if (case mx of None \<Rightarrow> False | Some m \<Rightarrow> m < mn) then Inl syntaxError
               else quantify mn mx (drop n rest) stack nxt n)
        else if c = 0x5B then
          (case parseClass rest of
             Inl e \<Rightarrow> Inl e
           | Inr (node, n) \<Rightarrow> Inr ((pushTerm node True stack, nxt), n))
        else if c = 0x5C then
          (case parseAtomEscape ng rest of
             Inl e \<Rightarrow> Inl e
           | Inr (node, q, n) \<Rightarrow> Inr ((pushTerm node q stack, nxt), n))
        else if c = 0x2E then Inr ((pushTerm RAny True stack, nxt), 0)
        else if c = 0x5E then Inr ((pushTerm RBol False stack, nxt), 0)
        else if c = 0x24 then Inr ((pushTerm REol False stack, nxt), 0)
        else Inr ((pushTerm (RChar c) True stack, nxt), 0))"

function parseLoop :: "nat \<Rightarrow> jstring \<Rightarrow> frame list \<times> nat \<Rightarrow> thrown + regex" where
  "parseLoop ng [] st = (case fst st of [f] \<Rightarrow> Inr (frameRegex f) | _ \<Rightarrow> Inl syntaxError)"
| "parseLoop ng (c # rest) st =
     (case pstep ng c rest st of
        Inl e \<Rightarrow> Inl e
      | Inr (st', n) \<Rightarrow> parseLoop ng (drop n rest) st')"
  by pat_completeness auto
termination
  by (relation "measure (\<lambda>(ng, cs, st). length cs)") auto

text \<open>\<open>new RegExp(src)\<close>: the regular expression, or the \<open>SyntaxError\<close> thrown.\<close>

definition RegExp_new :: "jstring \<Rightarrow> thrown + regex" where
  "RegExp_new src = parseLoop (countGroups src False) src ([(GTop, [], [])], 1)"

text \<open>A match stays inside the string and never moves backwards.\<close>

lemma rmatch_bounds_aux:
  "fst st \<le> length s \<Longrightarrow> (j, cj) \<in> set (rmatch s r st) \<Longrightarrow> fst st \<le> j \<and> j \<le> length s"
proof (induction s r st arbitrary: j cj rule: rmatch.induct)
  case (5 s a b st)
  from "5.prems"(2) obtain k ck where
    mid: "(k, ck) \<in> set (rmatch s a st)" and fin: "(j, cj) \<in> set (rmatch s b (k, ck))"
    by (auto simp: rmatch.simps)
  from "5.IH"(1) [OF "5.prems"(1) mid] have k: "fst st \<le> k \<and> k \<le> length s" .
  from "5.IH"(2) [OF mid _ fin] k have "k \<le> j \<and> j \<le> length s" by simp
  with k show ?case by simp
next
  case (7 s mn mx g r i cs)
  let ?cs0 = "filter (\<lambda>(k, be). k \<notin> set (groupsOf r)) cs"
  let ?its = "filter (\<lambda>(j, cj). mn \<noteq> 0 \<or> (i < j \<and> j \<le> length s)) (rmatch s r (i, ?cs0))"
  let ?next = "RRep (mn - 1) (map_option (\<lambda>m. m - 1) mx) g r"
  show ?case
  proof (cases "mx = Some 0")
    case True
    with "7.prems" show ?thesis by (simp add: rmatch.simps)
  next
    case False
    have "set (rmatch s (RRep mn mx g r) (i, cs))
            \<subseteq> {(i, cs)} \<union> (\<Union>st' \<in> set ?its. set (rmatch s ?next st'))"
      using False by (auto simp: rmatch.simps(7) [of s mn mx g r i cs] Let_def)
    with "7.prems"(2) have
      "(j, cj) = (i, cs) \<or> (\<exists>st' \<in> set ?its. (j, cj) \<in> set (rmatch s ?next st'))"
      by blast
    then show ?thesis
    proof
      assume "(j, cj) = (i, cs)"
      with "7.prems"(1) show ?thesis by simp
    next
      assume "\<exists>st' \<in> set ?its. (j, cj) \<in> set (rmatch s ?next st')"
      then obtain k ck where
        mid: "(k, ck) \<in> set ?its" and
        fin: "(j, cj) \<in> set (rmatch s ?next (k, ck))"
        by force
      from mid have mid': "(k, ck) \<in> set (rmatch s r (i, ?cs0))" by simp
      from "7.prems"(1) have "fst (i, ?cs0) \<le> length s" by simp
      from "7.IH"(1) [OF False refl this mid'] have k: "i \<le> k \<and> k \<le> length s" by simp
      from "7.IH"(2) [OF False refl refl mid _ fin] k have "k \<le> j \<and> j \<le> length s"
        by simp
      with k show ?thesis by simp
    qed
  qed
next
  case (6 s a b st)
  from "6.prems"(2) have "(j, cj) \<in> set (rmatch s a st) \<or> (j, cj) \<in> set (rmatch s b st)"
    by (simp add: rmatch.simps(6))
  with "6.IH" "6.prems"(1) show ?case by blast
next
  case (8 s k r i cs)
  from "8.prems"(2) obtain c0 where "(j, c0) \<in> set (rmatch s r (i, cs))"
    by (auto simp: rmatch.simps(8))
  with "8.IH" "8.prems"(1) show ?case by blast
next
  case (9 s p r i cs)
  from "9.prems" show ?case
    by (auto simp: rmatch.simps(9) split: list.splits if_splits)
next
  case (13 s k i cs)
  show ?case
  proof (cases "capText s cs k")
    case None
    with "13.prems" show ?thesis by (simp add: rmatch.simps(13))
  next
    case (Some t)
    with "13.prems"(2) have j: "j = i + length t" and t: "take (length t) (drop i s) = t"
      by (auto simp: rmatch.simps(13) startsWith_def split: if_splits)
    from t have "length t = min (length s - i) (length t)"
      using length_take [of "length t" "drop i s"] by simp
    with j "13.prems"(1) show ?thesis by simp
  qed
qed (auto simp: rmatch.simps(1,2,3,4,10,11,12) Let_def split: if_splits)

lemma rmatch_bounds:
  "i \<le> length s \<Longrightarrow> (j, cj) \<in> set (rmatch s r (i, cs)) \<Longrightarrow> i \<le> j \<and> j \<le> length s"
  using rmatch_bounds_aux [of "(i, cs)" s j cj r] by simp

text \<open>So the iterations a quantifier keeps are those that end at another index.\<close>

lemma rmatch_progress:
  "i \<le> length s \<Longrightarrow> (j, cj) \<in> set (rmatch s r (i, cs)) \<Longrightarrow>
   (i < j \<and> j \<le> length s) = (j \<noteq> i)"
  using rmatch_bounds [of i s j cj r cs] by auto

section \<open>The text intent parser: \<open>parseQuery\<close>\<close>

subsection \<open>String literals of \<open>parseQuery\<close>\<close>

text \<open>
  The literals in the order of the source: Beijing (the hard fallback city), the
  departure marker "chufa" and its preposition "cong", "wo xiang qu" (I want to go to),
  the generic keywords "jingdian lvyou" (sights, travel), and the keywords of the three
  normalisation rules with their results (food, sights, coffee).
\<close>

definition str_beijing :: jstring where
  "str_beijing =
    [0x5317, 0x4EAC]"

definition str_chufa :: jstring where
  "str_chufa =
    [0x51FA, 0x53D1]"

definition str_cong :: jstring where
  "str_cong =
    [0x4ECE]"

definition str_woxiangqu :: jstring where
  "str_woxiangqu =
    [0x6211, 0x60F3, 0x53BB]"

definition str_generic :: jstring where
  "str_generic =
    [0x666F, 0x70B9, 0x20, 0x65C5, 0x6E38]"

definition str_chishenme :: jstring where
  "str_chishenme =
    [0x5403, 0x4EC0, 0x4E48]"

definition str_canting :: jstring where
  "str_canting =
    [0x9910, 0x5385]"

definition str_meishi :: jstring where
  "str_meishi =
    [0x7F8E, 0x98DF]"

definition str_food :: jstring where
  "str_food =
    [0x9910, 0x5385, 0x20, 0x7F8E, 0x98DF]"

definition str_wanshenme :: jstring where
  "str_wanshenme =
    [0x73A9, 0x4EC0, 0x4E48]"

definition str_jingdian :: jstring where
  "str_jingdian =
    [0x666F, 0x70B9]"

definition str_lvyou :: jstring where
  "str_lvyou =
    [0x65C5, 0x6E38]"

definition str_kafei :: jstring where
  "str_kafei =
    [0x5496, 0x5561]"

definition str_kafeidian :: jstring where
  "str_kafeidian =
    [0x5496, 0x5561, 0x5E97]"

subsection \<open>The regular expressions of \<open>parseQuery\<close>\<close>

definition lit :: "jstring \<Rightarrow> regex" where
  "lit s = foldr (\<lambda>c r. RSeq (RChar c) r) s REmpty"

definition seqs :: "regex list \<Rightarrow> regex" where
  "seqs rs = foldr RSeq rs REmpty"

text \<open>The class \<open>[^\<dots>]\<close> of the code units not in \<open>cs\<close>, once or more.\<close>

definition noneOf :: "bool \<Rightarrow> jstring \<Rightarrow> regex" where
  "noneOf greedy cs = RRep 1 None greedy (RClass True (map COne cs))"

text \<open>Line 174, the departure phrase "cong X chufa": \<open>/cong([^,]+)chufa/\<close>.\<close>

definition departureRe :: regex where
  "departureRe =
     seqs [RChar 0x4ECE, RGroup 1 (seqs [noneOf True [0xFF0C, 0x2C]]),
           RChar 0x51FA, RChar 0x53D1]"

definition departureSrc :: jstring where
  "departureSrc = [0x4ECE] @ ascii ''([^'' @ [0xFF0C] @ ascii '',]+)'' @ [0x51FA, 0x53D1]"

text \<open>
  Lines 179 and 180, the two destination patterns. The first is a verb (I want to go
  to, go to, at, to, play), a lazy run of code units that are none of "wan", "tian",
  "ri", "chu", "fa" and the two commas, and one of play, travel, one-, two-, three-day
  trip, depart. The second is a lazy run of code units that are none of "jin", "ming",
  "hou", "chu", "fa" and the commas, before a one-, two- or three-day trip.
\<close>

definition cityVerbs :: "regex list" where
  "cityVerbs =
     [lit [0x6211, 0x60F3, 0x53BB], lit [0x53BB], lit [0x5728], lit [0x5230], lit [0x73A9]]"

definition cityTails :: "regex list" where
  "cityTails =
     [lit [0x73A9], lit [0x65C5, 0x6E38], lit [0x4E00, 0x65E5, 0x6E38],
      lit [0x4E24, 0x65E5, 0x6E38], lit [0x4E09, 0x65E5, 0x6E38]]"

definition cityPattern1 :: regex where
  "cityPattern1 =
     seqs [altOf cityVerbs,
           RGroup 1 (seqs [noneOf False [0x73A9, 0x5929, 0x65E5, 0x51FA, 0x53D1, 0xFF0C, 0x2C]]),
           altOf (cityTails @ [lit [0x51FA, 0x53D1]])]"

definition cityPattern1Src :: jstring where
  "cityPattern1Src =
     ascii ''(?:'' @ [0x6211, 0x60F3, 0x53BB, 0x7C, 0x53BB, 0x7C, 0x5728, 0x7C, 0x5230, 0x7C,
       0x73A9] @ ascii '')([^'' @ [0x73A9, 0x5929, 0x65E5, 0x51FA, 0x53D1, 0xFF0C] @
     ascii '',]+?)(?:'' @ [0x73A9, 0x7C, 0x65C5, 0x6E38, 0x7C, 0x4E00, 0x65E5, 0x6E38, 0x7C,
       0x4E24, 0x65E5, 0x6E38, 0x7C, 0x4E09, 0x65E5, 0x6E38, 0x7C, 0x51FA, 0x53D1] @ ascii '')''"

definition cityPattern2 :: regex where
  "cityPattern2 =
     seqs [RGroup 1 (seqs [noneOf False [0x4ECA, 0x660E, 0x540E, 0x51FA, 0x53D1, 0xFF0C, 0x2C]]),
           altOf (drop 2 cityTails)]"

definition cityPattern2Src :: jstring where
  "cityPattern2Src =
     ascii ''([^'' @ [0x4ECA, 0x660E, 0x540E, 0x51FA, 0x53D1, 0xFF0C] @ ascii '',]+?)(?:'' @
     [0x4E00, 0x65E5, 0x6E38, 0x7C, 0x4E24, 0x65E5, 0x6E38, 0x7C, 0x4E09, 0x65E5, 0x6E38] @
     ascii '')''"

definition cityPatterns :: "regex list" where
  "cityPatterns = [cityPattern1, cityPattern2]"

text \<open>
  Line 193, the source text of the regular expression built from the extracted city:
  an optional verb, the city as it stands (not escaped), an optional tail.
\<close>

definition cityRegExpSrc :: "jstring \<Rightarrow> jstring" where
  "cityRegExpSrc extractedCity =
     ascii ''(?:'' @ [0x6211, 0x60F3, 0x53BB, 0x7C, 0x53BB, 0x7C, 0x5728, 0x7C, 0x5230, 0x7C,
       0x73A9] @ ascii '')?'' @ extractedCity @
     ascii ''(?:'' @ [0x73A9, 0x7C, 0x65C5, 0x6E38, 0x7C, 0x4E00, 0x65E5, 0x6E38, 0x7C,
       0x4E24, 0x65E5, 0x6E38, 0x7C, 0x4E09, 0x65E5, 0x6E38] @ ascii '')?''"

text \<open>
  Lines 201 to 203, the three clean-up expressions (flag \<open>g\<close>): the departure phrase,
  the departure phrase after a full-width comma, and "wo xiang qu".
\<close>

definition departureAnyRe :: regex where
  "departureAnyRe = seqs [RChar 0x4ECE, noneOf True [0xFF0C, 0x2C], RChar 0x51FA, RChar 0x53D1]"

definition commaDepartureRe :: regex where
  "commaDepartureRe =
     seqs [RChar 0xFF0C, RChar 0x4ECE, noneOf True [0xFF0C, 0x2C], RChar 0x51FA, RChar 0x53D1]"

definition woxiangquRe :: regex where
  "woxiangquRe = lit str_woxiangqu"

subsection \<open>The configuration\<close>

text \<open>
  \<open>AppConfig\<close>: every field is optional. \<open>networkTimeout\<close> is a number of
  milliseconds; \<open>x || d\<close> on it takes \<open>d\<close> for \<open>undefined\<close> and for 0.
\<close>

record AppConfig =
  amapKey :: "jstring option"
  amapBaseUrl :: "jstring option"
  llmApiKey :: "jstring option"
  llmBaseUrl :: "jstring option"
  llmModel :: "jstring option"
  llmSystemPrompt :: "jstring option"
  llmEnableSearch :: "bool option"
  defaultCity :: "jstring option"
  networkTimeout :: "nat option"
  mockMode :: "bool option"

text \<open>\<open>a || d\<close> for an optional string \<open>a\<close> and a string \<open>d\<close>.\<close>

definition orStr :: "jstring option \<Rightarrow> jstring \<Rightarrow> jstring" where
  "orStr a d = (case a of None \<Rightarrow> d | Some s \<Rightarrow> if s = [] then d else s)"

subsection \<open>\<open>parseQuery\<close>\<close>

text \<open>
  Line 175: the departure city, the trimmed first group of the departure phrase, or the
  empty string. (The group takes part in every match; were it \<open>undefined\<close>, \<open>trim\<close>
  would throw a \<open>TypeError\<close>.)
\<close>

definition departureCityOf :: "jstring \<Rightarrow> thrown + jstring" where
  "departureCityOf query =
     (case js_match query departureRe of
        None \<Rightarrow> Inr []
      | Some (b, e, caps) \<Rightarrow>
          (case capText query caps 1 of
             None \<Rightarrow> Inl (typeErrorReading ''undefined'' ''trim'')
           | Some g \<Rightarrow> Inr (js_trim g)))"

text \<open>Lines 188 to 191: the test a candidate city passes.\<close>

definition acceptCity :: "jstring \<Rightarrow> jstring \<Rightarrow> bool" where
  "acceptCity extractedCity departureCity =
     (length extractedCity \<le> 4 \<and> extractedCity \<noteq> departureCity
      \<and> \<not> js_includes extractedCity str_chufa \<and> \<not> js_includes extractedCity str_cong)"

text \<open>
  Lines 183 to 197, the loop over the patterns. The state is the pair of \<open>keywords\<close>
  and \<open>city\<close>; the first accepted candidate sets both and leaves the loop, and the
  regular expression built from it may throw.
\<close>

fun extractCity ::
  "regex list \<Rightarrow> jstring \<Rightarrow> jstring \<Rightarrow> jstring \<times> jstring \<Rightarrow> thrown + (jstring \<times> jstring)" where
  "extractCity [] query departureCity kc = Inr kc"
| "extractCity (pattern # ps) query departureCity kc =
     (case js_match query pattern of
        None \<Rightarrow> extractCity ps query departureCity kc
      | Some (b, e, caps) \<Rightarrow>
          (case capText query caps 1 of
             None \<Rightarrow> extractCity ps query departureCity kc
           | Some g \<Rightarrow>
               if g = [] then extractCity ps query departureCity kc
               else
                 (let extractedCity = js_trim g
                  in if acceptCity extractedCity departureCity then
                       (case RegExp_new (cityRegExpSrc extractedCity) of
                          Inl err \<Rightarrow> Inl err
                        | Inr rx \<Rightarrow> Inr (js_trim (replaceFirst query rx), extractedCity))
                     else extractCity ps query departureCity kc)))"

text \<open>Lines 201 to 203: the departure phrases and "wo xiang qu" are removed.\<close>

definition cleanKeywords :: "jstring \<Rightarrow> jstring" where
  "cleanKeywords keywords =
     (let k1 = js_trim (replaceAll keywords departureAnyRe);
          k2 = js_trim (replaceAll k1 commaDepartureRe)
      in js_trim (replaceAll k2 woxiangquRe))"

text \<open>Lines 206 to 208: the generic keywords when nothing (or one code unit) is left.\<close>

definition genericFallback :: "jstring \<Rightarrow> jstring" where
  "genericFallback keywords = (if keywords = [] \<or> length keywords < 2 then str_generic else keywords)"

text \<open>Lines 211 to 217: the three normalisation rules, in the order of the source.\<close>

definition normalizeKeywords :: "jstring \<Rightarrow> jstring" where
  "normalizeKeywords keywords =
     (if js_includes keywords str_chishenme \<or> js_includes keywords str_canting
         \<or> js_includes keywords str_meishi then str_food
      else if js_includes keywords str_wanshenme \<or> js_includes keywords str_jingdian
         \<or> js_includes keywords str_lvyou then str_generic
      else if js_includes keywords str_kafei \<or> js_includes keywords str_kafeidian
        then str_kafeidian
      else keywords)"

text \<open>
  Lines 172 to 198: the keywords and the city before the clean-up. With a (truthy)
  default city nothing is extracted from the query.
\<close>

definition extractFromQuery ::
  "AppConfig \<Rightarrow> jstring \<Rightarrow> jstring option \<Rightarrow> thrown + (jstring \<times> jstring)" where
  "extractFromQuery cfg query defaultCityArg =
     (let city = orStr defaultCityArg (orStr (defaultCity cfg) str_beijing);
          keywords = js_trim query
      in if \<not> truthy defaultCityArg then
           (case departureCityOf query of
              Inl err \<Rightarrow> Inl err
            | Inr departureCity \<Rightarrow> extractCity cityPatterns query departureCity (keywords, city))
         else Inr (keywords, city))"

text \<open>
  \<open>parseQuery\<close> (lines 165 to 220) returns the pair \<open>{keywords, city}\<close>, or throws.
\<close>

definition parseQuery ::
  "AppConfig \<Rightarrow> jstring \<Rightarrow> jstring option \<Rightarrow> thrown + (jstring \<times> jstring)" where
  "parseQuery cfg query defaultCityArg =
     (case extractFromQuery cfg query defaultCityArg of
        Inl err \<Rightarrow> Inl err
      | Inr (keywords, city) \<Rightarrow>
          Inr (normalizeKeywords (genericFallback (cleanKeywords keywords)), city))"

text \<open>
  The hand-written syntax trees are what the constructor reads from the source text of
  the three literals with a capturing group.
\<close>

lemma departureRe_src: "RegExp_new departureSrc = Inr departureRe"
  by (simp add: RegExp_new_def departureSrc_def departureRe_def ascii_def pstep_def
      startsWith_def pushTerm.simps parseClass_def quantify_def seqOf_def seqs_def noneOf_def
      bracedQuant_def parseClassEscape_def)

lemma cityPattern1_src: "RegExp_new cityPattern1Src = Inr cityPattern1"
  by (simp add: RegExp_new_def cityPattern1Src_def cityPattern1_def ascii_def pstep_def
      startsWith_def pushTerm.simps parseClass_def quantify_def seqOf_def seqs_def noneOf_def
      cityVerbs_def cityTails_def lit_def)

lemma cityPattern2_src: "RegExp_new cityPattern2Src = Inr cityPattern2"
  by (simp add: RegExp_new_def cityPattern2Src_def cityPattern2_def ascii_def pstep_def
      startsWith_def pushTerm.simps parseClass_def quantify_def seqOf_def seqs_def noneOf_def
      cityTails_def lit_def)

section \<open>The data of a recommendation\<close>

text \<open>
  The interfaces of \<open>types.ts\<close>, optional fields as options. \<open>distance\<close> and
  \<open>score\<close> are JavaScript numbers: their type \<open>'n\<close> and the two conversions the code
  uses on them (\<open>Number(s)\<close> and the rendering in a template string) are parameters.
  Field names that several interfaces share carry the interface's initial.
\<close>

record 'n PoiItem =
  name :: jstring
  address :: "jstring option"
  location :: "jstring option"
  poiCity :: "jstring option"
  distance :: "'n option"
  score :: "'n option"
  tel :: "jstring option"
  image :: "jstring option"

record WeatherInfo =
  wCity :: jstring
  wAdcode :: "jstring option"
  weather :: jstring
  temperature :: jstring
  winddirection :: "jstring option"
  windpower :: "jstring option"
  humidity :: "jstring option"
  reporttime :: "jstring option"

record WeatherForecast =
  date :: jstring
  week :: "jstring option"
  dayweather :: jstring
  nightweather :: jstring
  daytemp :: jstring
  nighttemp :: jstring
  daywind :: "jstring option"
  nightwind :: "jstring option"
  daypower :: "jstring option"
  nightpower :: "jstring option"

record 'n RecommendationResult =
  summary :: jstring
  items :: "'n PoiItem list"
  fromMock :: "bool option"
  resWeather :: "WeatherInfo option"
  weatherForecast :: "WeatherForecast list option"

record RecommendationRequest =
  query :: jstring
  reqCity :: "jstring option"
  reqLocation :: "jstring option"
  travelDate :: "jstring option"
  destination :: "jstring option"
  departure :: "jstring option"

record 'n numops =
  toNumber :: "jstring \<Rightarrow> 'n"
  numToString :: "'n \<Rightarrow> jstring"

text \<open>The decimal digits of an array index or length in a template string.\<close>

function showNat :: "nat \<Rightarrow> jstring" where
  "showNat n = (if n < 10 then [0x30 + n] else showNat (n div 10) @ [0x30 + n mod 10])"
  by pat_completeness auto
termination
  by (relation "measure id") auto

declare showNat.simps [simp del]

text \<open>\<open>xs.join(sep)\<close> on strings.\<close>

fun js_join :: "jstring \<Rightarrow> jstring list \<Rightarrow> jstring" where
  "js_join sep [] = []"
| "js_join sep [x] = x"
| "js_join sep (x # y # ys) = x @ sep @ js_join sep (y # ys)"

section \<open>The deterministic summary: \<open>generateDefaultSummary\<close>\<close>

text \<open>
  The literals of lines 225 to 242: the sentence for no results (around the query), and
  the parts of the numbered list (full-width parentheses around the address, the
  distance in metres, the heading, and the note on the results not shown).
\<close>

definition str_noRec1 :: jstring where
  "str_noRec1 =
    [0x6839, 0x636E, 0x60A8, 0x7684, 0x67E5, 0x8BE2, 0x22]"

definition str_noRec2 :: jstring where
  "str_noRec2 =
    [0x22, 0xFF0C, 0x6682, 0x672A, 0x627E, 0x5230, 0x76F8, 0x5173, 0x63A8, 0x8350, 0x3002]"

definition str_dotSp :: jstring where
  "str_dotSp =
    ascii ''. ''"

definition str_lparen :: jstring where
  "str_lparen =
    [0xFF08]"

definition str_rparen :: jstring where
  "str_rparen =
    [0xFF09]"

definition str_dist :: jstring where
  "str_dist =
    [0x20, 0x2D, 0x20, 0x8DDD, 0x79BB]"

definition str_meter :: jstring where
  "str_meter =
    [0x7C73]"

definition str_nl :: jstring where
  "str_nl =
    [0xA]"

definition str_found :: jstring where
  "str_found =
    [0x4E3A, 0x60A8, 0x627E, 0x5230, 0x4EE5, 0x4E0B, 0x63A8, 0x8350, 0xFF1A, 0xA, 0xA]"

definition str_nlnl :: jstring where
  "str_nlnl =
    [0xA, 0xA]"

definition str_more1 :: jstring where
  "str_more1 =
    [0x8FD8, 0x6709]"

definition str_more2 :: jstring where
  "str_more2 =
    [0x4E2A, 0x7ED3, 0x679C, 0x672A, 0x663E, 0x793A, 0x3002]"

text \<open>Lines 230 to 239: one line of the list, for the item at \<open>index\<close>.\<close>

definition summaryLine :: "'n numops \<Rightarrow> nat \<Rightarrow> 'n PoiItem \<Rightarrow> jstring" where
  "summaryLine pf index poi =
     (let text0 = showNat (index + 1) @ str_dotSp @ name poi;
          text1 = (if truthy (address poi)
                   then text0 @ str_lparen @ orStr (address poi) [] @ str_rparen else text0)
      in case distance poi of
           None \<Rightarrow> text1
         | Some d \<Rightarrow> text1 @ str_dist @ numToString pf d @ str_meter)"

definition generateDefaultSummary :: "'n numops \<Rightarrow> 'n PoiItem list \<Rightarrow> jstring \<Rightarrow> jstring" where
  "generateDefaultSummary pf pois q =
     (if length pois = 0 then str_noRec1 @ q @ str_noRec2
      else
        (let shown = take 5 pois;
             lines = js_join str_nl (map (\<lambda>(index, poi). summaryLine pf index poi)
                       (zip [0..<length shown] shown))
         in str_found @ lines @ str_nlnl @
            (if 5 < length pois then str_more1 @ showNat (length pois - 5) @ str_more2 else [])))"

section \<open>The orchestrator: \<open>getRecommendations\<close>\<close>

subsection \<open>String literals of the orchestrator\<close>

text \<open>
  The broad search keywords (sights and six synonyms, joined by bars) and the suffix
  that adds sights to specific keywords; the summary for no places; the labels of the
  context (destination, departure, travel date, current location, current weather with
  temperature, wind direction, wind power and humidity, forecast by day and night); the
  two markers of a timeout and the note added to the summary; the prefix of the summary
  of a failed request.
\<close>

definition str_broad :: jstring where
  "str_broad =
    [0x666F, 0x70B9, 0x7C, 0x65C5, 0x6E38, 0x666F, 0x70B9, 0x7C, 0x540D, 0x80DC, 0x53E4,
     0x8FF9, 0x7C, 0x666F, 0x533A, 0x7C, 0x516C, 0x56ED, 0x7C, 0x535A, 0x7269, 0x9986,
     0x7C, 0x7EAA, 0x5FF5, 0x9986]"

definition str_broadSuffix :: jstring where
  "str_broadSuffix =
    [0x7C, 0x666F, 0x70B9, 0x7C, 0x65C5, 0x6E38, 0x666F, 0x70B9]"

definition str_noResults :: jstring where
  "str_noResults =
    [0x672A, 0x627E, 0x5230, 0x76F8, 0x5173, 0x5730, 0x70B9, 0xFF0C, 0x8BF7, 0x5C1D,
     0x8BD5, 0x5176, 0x4ED6, 0x5173, 0x952E, 0x8BCD, 0x6216, 0x68C0, 0x67E5, 0x7F51,
     0x7EDC, 0x8FDE, 0x63A5, 0x3002]"

definition str_commaSp :: jstring where
  "str_commaSp =
    ascii '', ''"

definition str_ctxDestination :: jstring where
  "str_ctxDestination =
    [0x76EE, 0x7684, 0x5730, 0x3A, 0x20]"

definition str_ctxDeparture :: jstring where
  "str_ctxDeparture =
    [0x51FA, 0x53D1, 0x5730, 0x3A, 0x20]"

definition str_ctxDate :: jstring where
  "str_ctxDate =
    [0x51FA, 0x884C, 0x65E5, 0x671F, 0x3A, 0x20]"

definition str_ctxLocation :: jstring where
  "str_ctxLocation =
    [0x5F53, 0x524D, 0x4F4D, 0x7F6E, 0x3A, 0x20]"

definition str_ctxWeather :: jstring where
  "str_ctxWeather =
    [0x5F53, 0x524D, 0x5929, 0x6C14, 0x3A, 0x20]"

definition str_ctxTemp :: jstring where
  "str_ctxTemp =
    [0x2C, 0x20, 0x6E29, 0x5EA6, 0x3A, 0x20]"

definition str_degC :: jstring where
  "str_degC =
    [0xB0, 0x43]"

definition str_ctxWindDir :: jstring where
  "str_ctxWindDir =
    [0x2C, 0x20, 0x98CE, 0x5411, 0x3A, 0x20]"

definition str_ctxWindPower :: jstring where
  "str_ctxWindPower =
    [0x2C, 0x20, 0x98CE, 0x529B, 0x3A, 0x20]"

definition str_ctxHumidity :: jstring where
  "str_ctxHumidity =
    [0x2C, 0x20, 0x6E7F, 0x5EA6, 0x3A, 0x20]"

definition str_percent :: jstring where
  "str_percent =
    ascii ''%''"

definition str_fcDay :: jstring where
  "str_fcDay =
    [0x3A, 0x20, 0x767D, 0x5929]"

definition str_space :: jstring where
  "str_space =
    ascii '' ''"

definition str_fcNight :: jstring where
  "str_fcNight =
    [0xB0, 0x43, 0x2C, 0x20, 0x591C, 0x95F4]"

definition str_semiSp :: jstring where
  "str_semiSp =
    ascii ''; ''"

definition str_ctxForecast :: jstring where
  "str_ctxForecast =
    [0x672A, 0x6765, 0x5929, 0x6C14, 0x3A, 0x20]"

definition str_Timeout :: jstring where
  "str_Timeout =
    ascii ''Timeout''"

definition str_chaoshi :: jstring where
  "str_chaoshi =
    [0x8D85, 0x65F6]"

definition str_timeoutNote :: jstring where
  "str_timeoutNote =
    [0xA, 0xA, 0xFF08, 0x6CE8, 0xFF1A, 0x41, 0x49, 0x63A8, 0x8350, 0x751F, 0x6210, 0x8D85,
     0x65F6, 0xFF0C, 0x5DF2, 0x663E, 0x793A, 0x57FA, 0x7840, 0x63A8, 0x8350, 0x5217,
     0x8868, 0xFF09]"

definition str_fail :: jstring where
  "str_fail =
    [0x83B7, 0x53D6, 0x63A8, 0x8350, 0x5931, 0x8D25, 0x3A, 0x20]"

definition str_undefined :: jstring where
  "str_undefined =
    ascii ''undefined''"

subsection \<open>The two services\<close>

text \<open>
  The use case holds an \<open>AmapService\<close> and an \<open>LlmService\<close> and calls five of
  their methods. Each call is asynchronous and either resolves to a value or rejects;
  it may depend on and change the world outside (\<open>'w\<close>: the network, the clock). The
  orchestrator is modelled for every behaviour of the five methods; the methods of
  \<open>AmapService\<close> themselves are modelled in the section on the map service.
\<close>

record ('n, 'w) services =
  amap_searchPoi :: "jstring \<Rightarrow> jstring \<Rightarrow> 'w \<Rightarrow> (thrown + 'n PoiItem list) \<times> 'w"
  amap_getCityAdcode :: "jstring \<Rightarrow> 'w \<Rightarrow> (thrown + jstring option) \<times> 'w"
  amap_getWeather :: "jstring \<Rightarrow> jstring option \<Rightarrow> 'w \<Rightarrow> (thrown + WeatherInfo option) \<times> 'w"
  amap_getWeatherForecast ::
    "jstring \<Rightarrow> jstring option \<Rightarrow> 'w \<Rightarrow> (thrown + WeatherForecast list option) \<times> 'w"
  llm_generateRecommendation ::
    "jstring \<Rightarrow> 'n PoiItem list \<Rightarrow> jstring option \<Rightarrow> 'w \<Rightarrow> (thrown + jstring) \<times> 'w"

text \<open>
  The calls a run makes are recorded, in order, next to the world: the state of a run
  is the pair of the calls made so far and the world.
\<close>

datatype 'n call =
    SearchPoi jstring jstring
  | GetCityAdcode jstring
  | GetWeather jstring "jstring option"
  | GetWeatherForecast jstring "jstring option"
  | GenerateRecommendation jstring "'n PoiItem list" "jstring option"

type_synonym ('n, 'w) run = "'n call list \<times> 'w"

definition invoke :: "'n call \<Rightarrow> ('w \<Rightarrow> 'a \<times> 'w) \<Rightarrow> ('n, 'w) run \<Rightarrow> 'a \<times> ('n, 'w) run" where
  "invoke c f st = (case f (snd st) of (r, w') \<Rightarrow> (r, (fst st @ [c], w')))"

fun isWeatherCall :: "'n call \<Rightarrow> bool" where
  "isWeatherCall (GetCityAdcode c) = True"
| "isWeatherCall (GetWeather c a) = True"
| "isWeatherCall (GetWeatherForecast c a) = True"
| "isWeatherCall c = False"

fun isNarrativeCall :: "'n call \<Rightarrow> bool" where
  "isNarrativeCall (GenerateRecommendation q ps c) = True"
| "isNarrativeCall c = False"

subsection \<open>Steps 1 and 2: the city and the keywords\<close>

text \<open>\<open>!this.config.mockMode\<close> is live mode: the flag is absent or false.\<close>

definition isMock :: "AppConfig \<Rightarrow> bool" where
  "isMock cfg = (mockMode cfg = Some True)"

text \<open>Line 26: the target city.\<close>

definition targetCityOf :: "AppConfig \<Rightarrow> RecommendationRequest \<Rightarrow> jstring" where
  "targetCityOf cfg request =
     orStr (destination request) (orStr (reqCity request) (orStr (defaultCity cfg) str_beijing))"

text \<open>
  Lines 26 to 32: \<open>parseQuery\<close> is called with the target city as its default, and the
  search city is \<open>request.destination || city || targetCity\<close>. The result is the
  pair of the keywords and the search city.
\<close>

definition resolveQuery :: "AppConfig \<Rightarrow> RecommendationRequest \<Rightarrow> thrown + (jstring \<times> jstring)" where
  "resolveQuery cfg request =
     (let targetCity = targetCityOf cfg request
      in case parseQuery cfg (query request) (Some targetCity) of
           Inl err \<Rightarrow> Inl err
         | Inr (keywords, city) \<Rightarrow>
             Inr (keywords,
                  orStr (destination request) (if city \<noteq> [] then city else targetCity)))"

subsection \<open>Step 3: the places\<close>

text \<open>Lines 39 to 46: the keywords sent to the search.\<close>

definition searchKeywordsOf :: "jstring \<Rightarrow> jstring" where
  "searchKeywordsOf keywords =
     (if keywords = [] \<or> keywords = str_generic then str_broad
      else if \<not> js_includes keywords str_jingdian \<and> \<not> js_includes keywords str_lvyou
        then keywords @ str_broadSuffix
      else keywords)"

text \<open>
  Lines 53 to 55: the second-phase places whose name is not among the first-phase names
  are appended, and the list is cut to 50.
\<close>

definition mergePois :: "'n PoiItem list \<Rightarrow> 'n PoiItem list \<Rightarrow> 'n PoiItem list" where
  "mergePois pois fallbackPois =
     (let existingNames = set (map name pois);
          newPois = filter (\<lambda>p. name p \<notin> existingNames) fallbackPois
      in take 50 (pois @ newPois))"

text \<open>
  Lines 35 to 61. An error of either search is caught and leaves the empty list (also
  when the first search had results and the second throws).
\<close>

definition searchStage ::
  "('n, 'w) services \<Rightarrow> AppConfig \<Rightarrow> jstring \<Rightarrow> jstring \<Rightarrow> ('n, 'w) run
   \<Rightarrow> 'n PoiItem list \<times> ('n, 'w) run" where
  "searchStage svc cfg keywords searchCity st =
     (if \<not> isMock cfg \<and> truthy (amapKey cfg) then
        (let searchKeywords = searchKeywordsOf keywords
         in case invoke (SearchPoi searchKeywords searchCity)
                   (amap_searchPoi svc searchKeywords searchCity) st of
              (Inl err, st1) \<Rightarrow> ([], st1)
            | (Inr pois, st1) \<Rightarrow>
                if length pois < 5 then
                  (case invoke (SearchPoi str_jingdian searchCity)
                          (amap_searchPoi svc str_jingdian searchCity) st1 of
                     (Inl err, st2) \<Rightarrow> ([], st2)
                   | (Inr fallbackPois, st2) \<Rightarrow> (mergePois pois fallbackPois, st2))
                else (pois, st1))
      else ([], st))"

subsection \<open>Step 5: the weather\<close>

text \<open>
  Lines 73 to 84. The three calls are in one \<open>try\<close>: the first that throws ends it,
  and what was assigned before stays (the weather, when only the forecast throws).
\<close>

definition weatherStage ::
  "('n, 'w) services \<Rightarrow> AppConfig \<Rightarrow> jstring \<Rightarrow> ('n, 'w) run
   \<Rightarrow> (WeatherInfo option \<times> WeatherForecast list option) \<times> ('n, 'w) run" where
  "weatherStage svc cfg searchCity st =
     (if \<not> isMock cfg \<and> truthy (amapKey cfg) \<and> searchCity \<noteq> [] then
        (case invoke (GetCityAdcode searchCity) (amap_getCityAdcode svc searchCity) st of
           (Inl err, st1) \<Rightarrow> ((None, None), st1)
         | (Inr cityAdcode, st1) \<Rightarrow>
             (case invoke (GetWeather searchCity cityAdcode)
                     (amap_getWeather svc searchCity cityAdcode) st1 of
                (Inl err, st2) \<Rightarrow> ((None, None), st2)
              | (Inr w, st2) \<Rightarrow>
                  (case invoke (GetWeatherForecast searchCity cityAdcode)
                          (amap_getWeatherForecast svc searchCity cityAdcode) st2 of
                     (Inl err, st3) \<Rightarrow> ((w, None), st3)
                   | (Inr f, st3) \<Rightarrow> ((w, f), st3))))
      else ((None, None), st))"

subsection \<open>Step 6: the narrative\<close>

text \<open>\<open>context += context ? ', ' + seg : seg\<close>.\<close>

definition addSegment :: "jstring \<Rightarrow> jstring \<Rightarrow> jstring" where
  "addSegment context seg = context @ (if context \<noteq> [] then str_commaSp @ seg else seg)"

definition forecastLine :: "WeatherForecast \<Rightarrow> jstring" where
  "forecastLine f =
     date f @ str_fcDay @ dayweather f @ str_space @ daytemp f @ str_fcNight @
     nightweather f @ str_space @ nighttemp f @ str_degC"

text \<open>Lines 91 to 123: the context handed to the model, \<open>undefined\<close> when empty.\<close>

definition buildContext ::
  "RecommendationRequest \<Rightarrow> WeatherInfo option \<Rightarrow> WeatherForecast list option
   \<Rightarrow> jstring option" where
  "buildContext request w fc =
     (let c1 = (if truthy (destination request)
                then str_ctxDestination @ orStr (destination request) [] else []);
          c2 = (if truthy (departure request)
                then addSegment c1 (str_ctxDeparture @ orStr (departure request) []) else c1);
          c3 = (if truthy (travelDate request)
                then addSegment c2 (str_ctxDate @ orStr (travelDate request) []) else c2);
          c4 = (if truthy (reqLocation request)
                then addSegment c3 (str_ctxLocation @ orStr (reqLocation request) []) else c3);
          c5 = (case w of
                  None \<Rightarrow> c4
                | Some wi \<Rightarrow>
                    (let d1 = addSegment c4 (str_ctxWeather @ weather wi @ str_ctxTemp @
                                temperature wi @ str_degC);
                         d2 = (if truthy (winddirection wi) \<and> truthy (windpower wi)
                               then d1 @ str_ctxWindDir @ orStr (winddirection wi) [] @
                                    str_ctxWindPower @ orStr (windpower wi) []
                               else d1)
                     in if truthy (humidity wi)
                        then d2 @ str_ctxHumidity @ orStr (humidity wi) [] @ str_percent
                        else d2));
          c6 = (case fc of
                  None \<Rightarrow> c5
                | Some fs \<Rightarrow>
                    if 0 < length fs
                    then addSegment c5 (str_ctxForecast @ js_join str_semiSp (map forecastLine fs))
                    else c5)
      in if c6 = [] then None else Some c6)"

text \<open>
  Lines 87 to 143. The handler of a failed generation reads \<open>err.message\<close> and calls
  \<open>includes\<close> on it: a \<open>TypeError\<close> when the message cannot be read or is
  \<open>undefined\<close>, which leaves the step.
\<close>

definition narrativeStage ::
  "('n, 'w) services \<Rightarrow> 'n numops \<Rightarrow> AppConfig \<Rightarrow> RecommendationRequest \<Rightarrow> 'n PoiItem list
   \<Rightarrow> WeatherInfo option \<Rightarrow> WeatherForecast list option \<Rightarrow> ('n, 'w) run
   \<Rightarrow> (thrown + jstring) \<times> ('n, 'w) run" where
  "narrativeStage svc pf cfg request pois w fc st =
     (if \<not> isMock cfg \<and> truthy (llmApiKey cfg) then
        (let context = buildContext request w fc
         in case invoke (GenerateRecommendation (query request) pois context)
                   (llm_generateRecommendation svc (query request) pois context) st of
              (Inr text, st1) \<Rightarrow> (Inr text, st1)
            | (Inl err, st1) \<Rightarrow>
                (case messageOf err of
                   Inl e \<Rightarrow> (Inl e, st1)
                 | Inr None \<Rightarrow> (Inl (typeErrorReading ''undefined'' ''includes''), st1)
                 | Inr (Some m) \<Rightarrow>
                     if js_includes m str_Timeout \<or> js_includes m str_chaoshi
                     then (Inr (generateDefaultSummary pf pois (query request) @ str_timeoutNote),
                           st1)
                     else (Inr (generateDefaultSummary pf pois (query request)), st1)))
      else (Inr (generateDefaultSummary pf pois (query request)), st))"

subsection \<open>\<open>getRecommendations\<close>\<close>

definition noResultsResult :: "'n RecommendationResult" where
  "noResultsResult =
     \<lparr>summary = str_noResults, items = [], fromMock = Some False,
      resWeather = None, weatherForecast = None\<rparr>"

text \<open>Lines 25 to 151: the body of the \<open>try\<close>, which returns or throws.\<close>

definition getRecommendationsTry ::
  "('n, 'w) services \<Rightarrow> 'n numops \<Rightarrow> AppConfig \<Rightarrow> RecommendationRequest \<Rightarrow> ('n, 'w) run
   \<Rightarrow> (thrown + 'n RecommendationResult) \<times> ('n, 'w) run" where
  "getRecommendationsTry svc pf cfg request st =
     (case resolveQuery cfg request of
        Inl err \<Rightarrow> (Inl err, st)
      | Inr (keywords, searchCity) \<Rightarrow>
          (case searchStage svc cfg keywords searchCity st of
             (pois, st1) \<Rightarrow>
               if length pois = 0 \<and> \<not> isMock cfg then (Inr noResultsResult, st1)
               else
                 (case weatherStage svc cfg searchCity st1 of
                    ((w, fc), st2) \<Rightarrow>
                      (case narrativeStage svc pf cfg request pois w fc st2 of
                         (Inl err, st3) \<Rightarrow> (Inl err, st3)
                       | (Inr text, st3) \<Rightarrow>
                           (Inr \<lparr>summary = text, items = pois, fromMock = Some (isMock cfg),
                                 resWeather = w, weatherForecast = fc\<rparr>, st3)))))"

text \<open>Lines 152 to 159: the handler of the outer \<open>try\<close>.\<close>

definition failureResult :: "jstring option \<Rightarrow> 'n RecommendationResult" where
  "failureResult m =
     \<lparr>summary = str_fail @ (case m of None \<Rightarrow> str_undefined | Some t \<Rightarrow> t), items = [],
      fromMock = Some False, resWeather = None, weatherForecast = None\<rparr>"

text \<open>
  \<open>getRecommendations\<close> (lines 23 to 160): the promise resolves to a result (\<open>Inr\<close>)
  or rejects (\<open>Inl\<close>).
\<close>

definition getRecommendations ::
  "('n, 'w) services \<Rightarrow> 'n numops \<Rightarrow> AppConfig \<Rightarrow> RecommendationRequest \<Rightarrow> ('n, 'w) run
   \<Rightarrow> (thrown + 'n RecommendationResult) \<times> ('n, 'w) run" where
  "getRecommendations svc pf cfg request st =
     (case getRecommendationsTry svc pf cfg request st of
        (Inr result, st') \<Rightarrow> (Inr result, st')
      | (Inl err, st') \<Rightarrow>
          (case messageOf err of
             Inl e \<Rightarrow> (Inl e, st')
           | Inr m \<Rightarrow> (Inr (failureResult m), st')))"

section \<open>The map service: \<open>AmapService\<close>\<close>

subsection \<open>The HTTP client and the payloads\<close>

text \<open>
  \<open>httpGet\<close> resolves to the parsed body or rejects with a \<open>{code, message}\<close>
  object (\<open>normalizeError\<close>). What the remote service answers is a parameter, the
  network: its answer may depend on the request and on the requests made before, which
  are the world of this section. The query parameters of a request are kept as pairs;
  \<open>buildQuery\<close> leaves out those with an empty value.
\<close>

datatype http_request = HttpGet jstring "(jstring \<times> jstring) list" nat

type_synonym world = "http_request list"

text \<open>
  The payloads, with the fields the code reads, typed as the interfaces of the source
  declare them: the three response interfaces share \<open>status\<close> and \<open>info\<close> and differ
  in the list they carry.
\<close>

record RawPhoto =
  photoTitle :: "jstring option"
  photoUrl :: "jstring option"

record RawPoi =
  rawName :: jstring
  rawAddress :: jstring
  rawLocation :: jstring
  rawTel :: "jstring option"
  rawDistance :: "jstring option"
  business_area :: "jstring option"
  photos :: "RawPhoto list option"

record RawGeocode =
  geoAdcode :: "jstring option"

record RawLive =
  liveCity :: jstring
  liveAdcode :: jstring
  liveWeather :: jstring
  liveTemperature :: jstring
  liveWinddirection :: jstring
  liveWindpower :: jstring
  liveHumidity :: jstring
  liveReporttime :: jstring

record RawCast =
  castDate :: jstring
  castWeek :: jstring
  castDayweather :: jstring
  castNightweather :: jstring
  castDaytemp :: jstring
  castNighttemp :: jstring
  castDaywind :: jstring
  castNightwind :: jstring
  castDaypower :: jstring
  castNightpower :: jstring

record RawForecast =
  casts :: "RawCast list"

record AmapData =
  dataStatus :: jstring
  dataInfo :: "jstring option"
  dataPois :: "RawPoi list option"
  dataGeocodes :: "RawGeocode list option"
  dataLives :: "RawLive list option"
  dataForecasts :: "RawForecast list option"

type_synonym network =
  "world \<Rightarrow> jstring \<Rightarrow> (jstring \<times> jstring) list \<Rightarrow> nat \<Rightarrow> ((int + jstring) \<times> jstring) + AmapData"

definition httpGet ::
  "network \<Rightarrow> jstring \<Rightarrow> (jstring \<times> jstring) list \<Rightarrow> nat \<Rightarrow> world \<Rightarrow> (thrown + AmapData) \<times> world" where
  "httpGet net url params timeout w =
     (let sent = filter (\<lambda>(k, v). v \<noteq> []) params
      in (case net w url sent timeout of
            Inl (code, msg) \<Rightarrow> Inl (HttpError code msg)
          | Inr d \<Rightarrow> Inr d,
          w @ [HttpGet url sent timeout]))"

subsection \<open>String literals of the service\<close>

text \<open>
  The error for a missing key, the default base URL and the three paths, the status of
  success, the error prefixes of the search ("Amap API error", "POI search failed") and
  their fallbacks ("unknown error", "network error").
\<close>

definition str_keyMissing :: jstring where
  "str_keyMissing =
    [0x9AD8, 0x5FB7, 0x5730, 0x56FE, 0x5BC6, 0x94A5, 0x672A, 0x914D, 0x7F6E]"

definition str_amapBase :: jstring where
  "str_amapBase =
    ascii ''https://restapi.amap.com/v3''"

definition str_placeText :: jstring where
  "str_placeText =
    ascii ''/place/text''"

definition str_geocodeGeo :: jstring where
  "str_geocodeGeo =
    ascii ''/geocode/geo''"

definition str_weatherInfo :: jstring where
  "str_weatherInfo =
    ascii ''/weather/weatherInfo''"

definition str_one :: jstring where
  "str_one =
    ascii ''1''"

definition str_amapErr :: jstring where
  "str_amapErr =
    [0x9AD8, 0x5FB7, 0x41, 0x50, 0x49, 0x9519, 0x8BEF, 0x3A, 0x20]"

definition str_unknownErr :: jstring where
  "str_unknownErr =
    [0x672A, 0x77E5, 0x9519, 0x8BEF]"

definition str_poiFail :: jstring where
  "str_poiFail =
    [0x50, 0x4F, 0x49, 0x641C, 0x7D22, 0x5931, 0x8D25, 0x3A, 0x20]"

definition str_netErr :: jstring where
  "str_netErr =
    [0x7F51, 0x7EDC, 0x9519, 0x8BEF]"

text \<open>\<open>this.config.networkTimeout || 12000\<close>.\<close>

definition timeoutOf :: "AppConfig \<Rightarrow> nat" where
  "timeoutOf cfg = (case networkTimeout cfg of None \<Rightarrow> 12000 | Some n \<Rightarrow> if n = 0 then 12000 else n)"

subsection \<open>\<open>searchPoi\<close>\<close>

text \<open>Lines 366 to 382: a record of the response as a place.\<close>

definition toPoiItem :: "'n numops \<Rightarrow> jstring \<Rightarrow> RawPoi \<Rightarrow> 'n PoiItem" where
  "toPoiItem pf searchCity poi =
     \<lparr>name = rawName poi,
      address = Some (orStr (Some (rawAddress poi)) (orStr (business_area poi) [])),
      location = Some (rawLocation poi),
      poiCity = Some searchCity,
      distance = (if truthy (rawDistance poi)
                  then Some (toNumber pf (orStr (rawDistance poi) [])) else None),
      score = None,
      tel = rawTel poi,
      image = (case photos poi of
                 None \<Rightarrow> None
               | Some ps \<Rightarrow>
                   (case ps of
                      [] \<Rightarrow> None
                    | p # rest \<Rightarrow> if truthy (photoUrl p) then photoUrl p else None))\<rparr>"

text \<open>
  Lines 322 to 392. Without a key the method throws at once; every error inside its
  \<open>try\<close> (the rejected request, the status that is not \<open>'1'\<close>) is thrown again as
  "POI search failed".
\<close>

definition searchPoi ::
  "AppConfig \<Rightarrow> 'n numops \<Rightarrow> network \<Rightarrow> jstring \<Rightarrow> jstring \<Rightarrow> world
   \<Rightarrow> (thrown + 'n PoiItem list) \<times> world" where
  "searchPoi cfg pf net keywords city w =
     (if \<not> truthy (amapKey cfg) then (Inl (JsError str_keyMissing), w)
      else
        (let url = orStr (amapBaseUrl cfg) str_amapBase @ str_placeText;
             searchCity = orStr (Some city) (orStr (defaultCity cfg) str_beijing);
             requestParams =
               [(ascii ''key'', orStr (amapKey cfg) []), (ascii ''keywords'', keywords),
                (ascii ''city'', searchCity), (ascii ''output'', ascii ''JSON''),
                (ascii ''offset'', ascii ''50''), (ascii ''page'', ascii ''1''),
                (ascii ''extensions'', ascii ''all'')]
         in case httpGet net url requestParams (timeoutOf cfg) w of
              (r, w') \<Rightarrow>
                (let tried =
                       (case r of
                          Inl err \<Rightarrow> Inl err
                        | Inr d \<Rightarrow>
                            if dataStatus d \<noteq> str_one
                            then Inl (JsError (str_amapErr @ orStr (dataInfo d) str_unknownErr))
                            else Inr (map (toPoiItem pf searchCity)
                                       (case dataPois d of None \<Rightarrow> [] | Some ps \<Rightarrow> ps)))
                 in case tried of
                      Inr result \<Rightarrow> (Inr result, w')
                    | Inl err \<Rightarrow>
                        (case messageOf err of
                           Inl e \<Rightarrow> (Inl e, w')
                         | Inr m \<Rightarrow>
                             (Inl (JsError (str_poiFail @
                                      orStr m str_netErr)),
                              w')))))"

subsection \<open>\<open>getCityAdcode\<close>, \<open>getWeather\<close>, \<open>getWeatherForecast\<close>\<close>

text \<open>
  Lines 450 to 486. The handler reads \<open>error.message\<close> for the log; after it, as
  after a response without an area code, the method returns \<open>null\<close>.
\<close>

definition getCityAdcode ::
  "AppConfig \<Rightarrow> network \<Rightarrow> jstring \<Rightarrow> world \<Rightarrow> (thrown + jstring option) \<times> world" where
  "getCityAdcode cfg net cityName w =
     (if \<not> truthy (amapKey cfg) then (Inr None, w)
      else
        (let url = orStr (amapBaseUrl cfg) str_amapBase @ str_geocodeGeo;
             requestParams =
               [(ascii ''key'', orStr (amapKey cfg) []), (ascii ''address'', cityName),
                (ascii ''output'', ascii ''JSON'')]
         in case httpGet net url requestParams (timeoutOf cfg) w of
              (Inl err, w') \<Rightarrow>
                (case messageOf err of Inl e \<Rightarrow> (Inl e, w') | Inr m \<Rightarrow> (Inr None, w'))
            | (Inr d, w') \<Rightarrow>
                (if dataStatus d = str_one then
                   (case dataGeocodes d of
                      None \<Rightarrow> (Inr None, w')
                    | Some gs \<Rightarrow>
                        (case gs of
                           [] \<Rightarrow> (Inr None, w')
                         | g # rest \<Rightarrow>
                             if truthy (geoAdcode g) then (Inr (geoAdcode g), w')
                             else (Inr None, w')))
                 else (Inr None, w'))))"

text \<open>
  Lines 505 to 513, shared by the two weather methods: the city parameter of the
  request is the area code handed in, else the one looked up, else the city name. The
  lookup is inside the \<open>try\<close> of the method.
\<close>

definition cityParamOf ::
  "AppConfig \<Rightarrow> network \<Rightarrow> jstring \<Rightarrow> jstring option \<Rightarrow> world \<Rightarrow> (thrown + jstring) \<times> world" where
  "cityParamOf cfg net city adcode w =
     (case (if \<not> truthy adcode then getCityAdcode cfg net city w else (Inr adcode, w)) of
        (Inl err, w') \<Rightarrow> (Inl err, w')
      | (Inr finalAdcode, w') \<Rightarrow> (Inr (orStr finalAdcode city), w'))"

definition weatherParams :: "AppConfig \<Rightarrow> jstring \<Rightarrow> jstring \<Rightarrow> (jstring \<times> jstring) list" where
  "weatherParams cfg cityParam extensions =
     [(ascii ''key'', orStr (amapKey cfg) []), (ascii ''city'', cityParam),
      (ascii ''extensions'', extensions), (ascii ''output'', ascii ''JSON'')]"

text \<open>
  The handler of the two weather methods reads \<open>message\<close> and \<open>code\<close> of the error
  for the log and returns \<open>null\<close>.
\<close>

definition weatherCatch :: "thrown \<Rightarrow> thrown + 'a option" where
  "weatherCatch err = (case messageOf err of Inl e \<Rightarrow> Inl e | Inr m \<Rightarrow> Inr None)"

definition toWeatherInfo :: "RawLive \<Rightarrow> WeatherInfo" where
  "toWeatherInfo live =
     \<lparr>wCity = liveCity live, wAdcode = Some (liveAdcode live), weather = liveWeather live,
      temperature = liveTemperature live, winddirection = Some (liveWinddirection live),
      windpower = Some (liveWindpower live), humidity = Some (liveHumidity live),
      reporttime = Some (liveReporttime live)\<rparr>"

text \<open>Lines 493 to 561.\<close>

definition getWeather ::
  "AppConfig \<Rightarrow> network \<Rightarrow> jstring \<Rightarrow> jstring option \<Rightarrow> world
   \<Rightarrow> (thrown + WeatherInfo option) \<times> world" where
  "getWeather cfg net city adcode w =
     (if \<not> truthy (amapKey cfg) then (Inr None, w)
      else
        (case cityParamOf cfg net city adcode w of
           (Inl err, w1) \<Rightarrow> (weatherCatch err, w1)
         | (Inr cityParam, w1) \<Rightarrow>
             (case httpGet net (orStr (amapBaseUrl cfg) str_amapBase @ str_weatherInfo)
                     (weatherParams cfg cityParam (ascii ''base'')) (timeoutOf cfg) w1 of
                (Inl err, w2) \<Rightarrow> (weatherCatch err, w2)
              | (Inr d, w2) \<Rightarrow>
                  (if dataStatus d \<noteq> str_one then (Inr None, w2)
                   else
                     (case dataLives d of
                        None \<Rightarrow> (Inr None, w2)
                      | Some ls \<Rightarrow>
                          (case ls of
                             [] \<Rightarrow> (Inr None, w2)
                           | live # rest \<Rightarrow> (Inr (Some (toWeatherInfo live)), w2)))))))"

definition toWeatherForecast :: "RawCast \<Rightarrow> WeatherForecast" where
  "toWeatherForecast cast =
     \<lparr>date = castDate cast, week = Some (castWeek cast), dayweather = castDayweather cast,
      nightweather = castNightweather cast, daytemp = castDaytemp cast,
      nighttemp = castNighttemp cast, daywind = Some (castDaywind cast),
      nightwind = Some (castNightwind cast), daypower = Some (castDaypower cast),
      nightpower = Some (castNightpower cast)\<rparr>"

text \<open>Lines 568 to 638.\<close>

definition getWeatherForecast ::
  "AppConfig \<Rightarrow> network \<Rightarrow> jstring \<Rightarrow> jstring option \<Rightarrow> world
   \<Rightarrow> (thrown + WeatherForecast list option) \<times> world" where
  "getWeatherForecast cfg net city adcode w =
     (if \<not> truthy (amapKey cfg) then (Inr None, w)
      else
        (case cityParamOf cfg net city adcode w of
           (Inl err, w1) \<Rightarrow> (weatherCatch err, w1)
         | (Inr cityParam, w1) \<Rightarrow>
             (case httpGet net (orStr (amapBaseUrl cfg) str_amapBase @ str_weatherInfo)
                     (weatherParams cfg cityParam (ascii ''all'')) (timeoutOf cfg) w1 of
                (Inl err, w2) \<Rightarrow> (weatherCatch err, w2)
              | (Inr d, w2) \<Rightarrow>
                  (if dataStatus d \<noteq> str_one then (Inr None, w2)
                   else
                     (case dataForecasts d of
                        None \<Rightarrow> (Inr None, w2)
                      | Some fs \<Rightarrow>
                          (case fs of
                             [] \<Rightarrow> (Inr None, w2)
                           | forecast # rest \<Rightarrow>
                               (Inr (Some (map toWeatherForecast (casts forecast))), w2)))))))"

text \<open>
  The services of the use case in production: the four methods above over a network,
  next to a narrative service.
\<close>

definition liveServices ::
  "AppConfig \<Rightarrow> 'n numops \<Rightarrow> network
   \<Rightarrow> (jstring \<Rightarrow> 'n PoiItem list \<Rightarrow> jstring option \<Rightarrow> world \<Rightarrow> (thrown + jstring) \<times> world)
   \<Rightarrow> ('n, world) services" where
  "liveServices cfg pf net llm =
     \<lparr>amap_searchPoi = searchPoi cfg pf net,
      amap_getCityAdcode = getCityAdcode cfg net,
      amap_getWeather = getWeather cfg net,
      amap_getWeatherForecast = getWeatherForecast cfg net,
      llm_generateRecommendation = llm\<rparr>"

section \<open>Example inputs\<close>

text \<open>
  Concrete inputs at which the theorems below are instantiated: a number type (the
  naturals, read and written in decimal), four configurations (empty, live with a map
  key, live with both keys, mock), a place with a name only, a request with a query
  only, and services whose search answers by its keywords and whose narrative has one
  fixed outcome. The weather of these services is always \<open>null\<close>.
\<close>

definition demoOps :: "nat numops" where
  "demoOps = \<lparr>toNumber = decVal, numToString = showNat\<rparr>"

definition noConfig :: AppConfig where
  "noConfig =
     \<lparr>amapKey = None, amapBaseUrl = None, llmApiKey = None, llmBaseUrl = None,
      llmModel = None, llmSystemPrompt = None, llmEnableSearch = None, defaultCity = None,
      networkTimeout = None, mockMode = None\<rparr>"

definition liveConfig :: AppConfig where
  "liveConfig = noConfig\<lparr>amapKey := Some (ascii ''key''), mockMode := Some False\<rparr>"

definition liveLlmConfig :: AppConfig where
  "liveLlmConfig = liveConfig\<lparr>llmApiKey := Some (ascii ''key'')\<rparr>"

definition mockConfig :: AppConfig where
  "mockConfig = noConfig\<lparr>mockMode := Some True\<rparr>"

definition place :: "jstring \<Rightarrow> nat PoiItem" where
  "place n =
     \<lparr>name = n, address = None, location = None, poiCity = None, distance = None,
      score = None, tel = None, image = None\<rparr>"

definition demoRequest :: "jstring \<Rightarrow> RecommendationRequest" where
  "demoRequest q =
     \<lparr>query = q, reqCity = None, reqLocation = None, travelDate = None, destination = None,
      departure = None\<rparr>"

definition demoServices ::
  "(jstring \<Rightarrow> thrown + nat PoiItem list) \<Rightarrow> (thrown + jstring) \<Rightarrow> (nat, unit) services" where
  "demoServices search narrative =
     \<lparr>amap_searchPoi = (\<lambda>k c w. (search k, w)),
      amap_getCityAdcode = (\<lambda>c w. (Inr None, w)),
      amap_getWeather = (\<lambda>c a w. (Inr None, w)),
      amap_getWeatherForecast = (\<lambda>c a w. (Inr None, w)),
      llm_generateRecommendation = (\<lambda>q ps c w. (narrative, w))\<rparr>"

text \<open>
  A search that answers the bare keyword "jingdian" with the places B, D, E, F and any
  other keywords with A, B, C; one that answers it with B, B and any other keywords
  with A; one that answers it with B and any other keywords with A, A; five and
  fifty-one places of one name; five places of different names.
\<close>

definition twoPhase :: "jstring \<Rightarrow> thrown + nat PoiItem list" where
  "twoPhase k =
     (if k = str_jingdian
      then Inr [place [0x42], place [0x44], place [0x45], place [0x46]]
      else Inr [place [0x41], place [0x42], place [0x43]])"



definition fivePlaces :: "nat PoiItem list" where
  "fivePlaces = replicate 5 (place [0x41])"



text \<open>
  Four queries: "I want to go to Shanghai to play, departing from Beijing" (with an
  ASCII comma), "I want to go to Shanghai to play", "what is good to eat", and "go to
  ( play".
\<close>

definition q_shanghai_from_beijing :: jstring where
  "q_shanghai_from_beijing =
     [0x6211, 0x60F3, 0x53BB, 0x4E0A, 0x6D77, 0x73A9, 0x2C, 0x4ECE, 0x5317, 0x4EAC, 0x51FA,
      0x53D1]"

definition q_shanghai :: jstring where
  "q_shanghai = [0x6211, 0x60F3, 0x53BB, 0x4E0A, 0x6D77, 0x73A9]"

definition q_chishenmehao :: jstring where
  "q_chishenmehao = [0x5403, 0x4EC0, 0x4E48, 0x597D]"

definition q_paren :: jstring where
  "q_paren = [0x53BB, 0x28, 0x73A9]"

section \<open>Properties of \<open>parseQuery\<close>\<close>

subsection \<open>Evaluation\<close>

text \<open>
  The unfolding rules with which the simplifier evaluates the parser on a concrete
  query, and the evaluations the theorems use.
\<close>

lemmas str_defs = str_beijing_def str_chufa_def str_cong_def str_woxiangqu_def str_generic_def
  str_chishenme_def str_canting_def str_meishi_def str_food_def str_wanshenme_def
  str_jingdian_def str_lvyou_def str_kafei_def str_kafeidian_def

lemmas rx_defs = departureRe_def cityPattern1_def cityPattern2_def cityPatterns_def
  cityVerbs_def cityTails_def departureAnyRe_def commaDepartureRe_def woxiangquRe_def
  lit_def seqs_def noneOf_def

lemmas parse_defs = RegExp_new_def pstep_def startsWith_def parseClass_def quantify_def
  seqOf_def bracedQuant_def parseClassEscape_def parseAtomEscape_def charEscape_def
  cityRegExpSrc_def ascii_def syntaxError_def

lemmas match_defs = rmatch.simps execFrom.simps replaceAllFrom.simps js_match_def
  replaceFirst_def replaceAll_def capText_def inClass_def isWhiteSpace_def js_trim_def
  isDigit_def isWordChar_def isLineTerminator_def

lemmas pq_defs = parseQuery_def extractFromQuery_def departureCityOf_def acceptCity_def
  cleanKeywords_def genericFallback_def normalizeKeywords_def orStr_def truthy_def

lemma shanghai_regexp:
  "RegExp_new (cityRegExpSrc [0x4E0A, 0x6D77]) =
     Inr (seqs [RRep 0 (Some 1) True (altOf cityVerbs), RChar 0x4E0A, RChar 0x6D77,
                RRep 0 (Some 1) True (altOf cityTails)])"
  by (simp add: parse_defs seqs_def cityVerbs_def cityTails_def lit_def)

lemma trip_departure: "departureCityOf q_shanghai_from_beijing = Inr str_beijing"
  by (simp add: q_shanghai_from_beijing_def departureCityOf_def match_defs rx_defs str_defs
      startsWith_def)

lemma trip_extract:
  "extractCity cityPatterns q_shanghai_from_beijing str_beijing kc =
     Inr ([0x2C, 0x4ECE, 0x5317, 0x4EAC, 0x51FA, 0x53D1], [0x4E0A, 0x6D77])"
  by (simp add: q_shanghai_from_beijing_def acceptCity_def match_defs rx_defs str_defs
      startsWith_def shanghai_regexp Let_def)

lemma trip_keywords:
  "normalizeKeywords
     (genericFallback (cleanKeywords [0x2C, 0x4ECE, 0x5317, 0x4EAC, 0x51FA, 0x53D1])) =
   str_generic"
  by (simp add: cleanKeywords_def genericFallback_def normalizeKeywords_def match_defs rx_defs
      str_defs startsWith_def Let_def)

lemma trip_parse: "parseQuery cfg q_shanghai_from_beijing None = Inr (str_generic, [0x4E0A, 0x6D77])"
  by (simp add: parseQuery_def extractFromQuery_def truthy_def trip_departure trip_extract trip_keywords)

lemma chi_departure: "departureCityOf q_chishenmehao = Inr []"
  by (simp add: q_chishenmehao_def departureCityOf_def match_defs rx_defs startsWith_def)

lemma chi_patterns: "extractCity cityPatterns q_chishenmehao [] kc = Inr kc"
  by (simp add: q_chishenmehao_def match_defs rx_defs startsWith_def)

lemma chi_trim: "js_trim q_chishenmehao = q_chishenmehao"
  by (simp add: q_chishenmehao_def js_trim_def isWhiteSpace_def)

lemma chi_extract:
  "extractFromQuery cfg q_chishenmehao d =
     Inr (q_chishenmehao, orStr d (orStr (defaultCity cfg) str_beijing))"
  by (simp add: extractFromQuery_def chi_departure chi_patterns chi_trim Let_def)

lemma chi_keywords:
  "normalizeKeywords (genericFallback (cleanKeywords q_chishenmehao)) = str_food"
  by (simp add: q_chishenmehao_def cleanKeywords_def genericFallback_def normalizeKeywords_def
      match_defs rx_defs str_defs startsWith_def Let_def)

lemma paren_departure: "departureCityOf q_paren = Inr []"
  by (simp add: q_paren_def departureCityOf_def match_defs rx_defs startsWith_def)

lemma paren_regexp: "RegExp_new (cityRegExpSrc [0x28]) = Inl syntaxError"
  by (simp add: parse_defs)

lemma paren_extract: "extractCity cityPatterns q_paren [] kc = Inl syntaxError"
  by (simp add: q_paren_def acceptCity_def match_defs rx_defs str_defs startsWith_def
      paren_regexp Let_def)

lemma shanghai_departure: "departureCityOf q_shanghai = Inr []"
  by (simp add: q_shanghai_def departureCityOf_def match_defs rx_defs startsWith_def)

lemma shanghai_extract:
  "extractCity cityPatterns q_shanghai [] kc = Inr ([], [0x4E0A, 0x6D77])"
  by (simp add: q_shanghai_def acceptCity_def match_defs rx_defs str_defs startsWith_def
      shanghai_regexp Let_def)

lemma clean_empty: "normalizeKeywords (genericFallback (cleanKeywords [])) = str_generic"
  by (simp add: cleanKeywords_def genericFallback_def normalizeKeywords_def match_defs rx_defs
      str_defs startsWith_def Let_def)

lemma shanghai_parse: "parseQuery cfg q_shanghai None = Inr (str_generic, [0x4E0A, 0x6D77])"
  by (simp add: parseQuery_def extractFromQuery_def truthy_def shanghai_departure
      shanghai_extract clean_empty Let_def)

lemma shanghai_keywords:
  "normalizeKeywords (genericFallback (cleanKeywords (js_trim q_shanghai))) =
   [0x4E0A, 0x6D77, 0x73A9]"
  by (simp add: q_shanghai_def cleanKeywords_def genericFallback_def normalizeKeywords_def
      match_defs rx_defs str_defs startsWith_def Let_def)

subsection \<open>With a default city nothing is extracted\<close>

lemma str_beijing_nonempty: "str_beijing \<noteq> []"
  by (simp add: str_beijing_def)

lemma orStr_nonempty: "d \<noteq> [] \<Longrightarrow> orStr a d \<noteq> []"
  by (simp add: orStr_def split: option.splits)

lemma orStr_idem: "orStr a (orStr a d) = orStr a d"
  by (simp add: orStr_def split: option.splits)

lemma parseQuery_default:
  "d \<noteq> [] \<Longrightarrow>
   parseQuery cfg q (Some d) =
     Inr (normalizeKeywords (genericFallback (cleanKeywords (js_trim q))), d)"
  by (simp add: parseQuery_def extractFromQuery_def truthy_def orStr_def)

subsection \<open>The city is never the departure city\<close>

lemma extractCity_city:
  "extractCity ps q dep (k, c) = Inr (k', c') \<Longrightarrow> c' = c \<or> acceptCity c' dep"
proof (induction ps)
  case Nil
  then show ?case by simp
next
  case (Cons p ps)
  then show ?case
    by (auto simp: Let_def split: option.splits prod.splits if_splits sum.splits)
qed

lemma parseQuery_city_not_departure:
  assumes "\<not> truthy d" and "parseQuery cfg q d = Inr (k, c)" and "departureCityOf q = Inr dep"
  shows "c \<noteq> dep \<or> c = orStr (defaultCity cfg) str_beijing"
proof -
  from assms(1) have d:
    "orStr d (orStr (defaultCity cfg) str_beijing) = orStr (defaultCity cfg) str_beijing"
    by (auto simp: orStr_def truthy_def split: option.splits)
  from assms obtain k0 where
    "extractCity cityPatterns q dep (js_trim q, orStr (defaultCity cfg) str_beijing) = Inr (k0, c)"
    by (auto simp: parseQuery_def extractFromQuery_def d Let_def split: sum.splits prod.splits)
  from extractCity_city [OF this] show ?thesis by (auto simp: acceptCity_def)
qed

text \<open>
  Claim C7. For the query "I want to go to Shanghai to play, departing from Beijing"
  and no default city, \<open>parseQuery\<close> returns the city Shanghai (code units 4E0A,
  6D77), which is not Beijing, the departure city of the query. In general, without a
  default city argument, a city that \<open>parseQuery\<close> returns and that is not the
  configured default (Beijing when none is configured) is different from the departure
  city of the phrase "cong X chufa": a candidate equal to the departure city does not
  pass the test of lines 188 to 191.
\<close>

theorem C7_destination_not_departure:
  "parseQuery cfg q_shanghai_from_beijing None = Inr (str_generic, [0x4E0A, 0x6D77])
   \<and> departureCityOf q_shanghai_from_beijing = Inr str_beijing
   \<and> [0x4E0A, 0x6D77] \<noteq> str_beijing
   \<and> (\<forall>q d k c dep. \<not> truthy d \<and> parseQuery cfg q d = Inr (k, c)
         \<and> departureCityOf q = Inr dep \<and> c \<noteq> orStr (defaultCity cfg) str_beijing
       \<longrightarrow> c \<noteq> dep)
   \<and> \<not> acceptCity x x"
  using parseQuery_city_not_departure [of _ cfg]
  by (auto simp: trip_parse trip_departure str_beijing_def acceptCity_def)

text \<open>The general part at the query of the claim, with nothing configured.\<close>

theorem C7_witness:
  "\<not> truthy None
   \<and> parseQuery noConfig q_shanghai_from_beijing None = Inr (str_generic, [0x4E0A, 0x6D77])
   \<and> departureCityOf q_shanghai_from_beijing = Inr str_beijing
   \<and> [0x4E0A, 0x6D77] \<noteq> orStr (defaultCity noConfig) str_beijing
   \<and> [0x4E0A, 0x6D77] \<noteq> str_beijing"
  using C7_destination_not_departure [of noConfig "[]"]
  by (simp add: truthy_def noConfig_def orStr_def)

text \<open>
  Claim C8. Whenever \<open>parseQuery\<close> returns, its keywords are the normalisation of
  the text left after the clean-up and the generic fallback: if that text contains
  "chi shenme", "canting" or "meishi" they are "canting meishi"; else if it contains
  "wan shenme", "jingdian" or "lvyou" they are "jingdian lvyou"; else if it contains
  "kafei" or "kafeidian" they are "kafeidian"; else they are that text. The query
  "chi shenme hao" yields "canting meishi", with or without a default city.
\<close>

theorem C8_keyword_normalisation:
  "(\<forall>k c. parseQuery cfg q d = Inr (k, c) \<longrightarrow>
      (\<exists>k0. extractFromQuery cfg q d = Inr (k0, c) \<and>
         (let t = genericFallback (cleanKeywords k0);
              food = (js_includes t str_chishenme \<or> js_includes t str_canting
                      \<or> js_includes t str_meishi);
              sights = (js_includes t str_wanshenme \<or> js_includes t str_jingdian
                        \<or> js_includes t str_lvyou);
              coffee = (js_includes t str_kafei \<or> js_includes t str_kafeidian)
          in (food \<longrightarrow> k = str_food)
             \<and> (\<not> food \<and> sights \<longrightarrow> k = str_generic)
             \<and> (\<not> food \<and> \<not> sights \<and> coffee \<longrightarrow> k = str_kafeidian)
             \<and> (\<not> food \<and> \<not> sights \<and> \<not> coffee \<longrightarrow> k = t))))
   \<and> parseQuery cfg q_chishenmehao d =
       Inr (str_food, orStr d (orStr (defaultCity cfg) str_beijing))"
proof
  show "\<forall>k c. parseQuery cfg q d = Inr (k, c) \<longrightarrow>
      (\<exists>k0. extractFromQuery cfg q d = Inr (k0, c) \<and>
         (let t = genericFallback (cleanKeywords k0);
              food = (js_includes t str_chishenme \<or> js_includes t str_canting
                      \<or> js_includes t str_meishi);
              sights = (js_includes t str_wanshenme \<or> js_includes t str_jingdian
                        \<or> js_includes t str_lvyou);
              coffee = (js_includes t str_kafei \<or> js_includes t str_kafeidian)
          in (food \<longrightarrow> k = str_food)
             \<and> (\<not> food \<and> sights \<longrightarrow> k = str_generic)
             \<and> (\<not> food \<and> \<not> sights \<and> coffee \<longrightarrow> k = str_kafeidian)
             \<and> (\<not> food \<and> \<not> sights \<and> \<not> coffee \<longrightarrow> k = t)))"
    by (auto simp: parseQuery_def normalizeKeywords_def Let_def split: sum.splits prod.splits)
  show "parseQuery cfg q_chishenmehao d =
       Inr (str_food, orStr d (orStr (defaultCity cfg) str_beijing))"
    by (simp add: parseQuery_def chi_extract chi_keywords)
qed

text \<open>The general part at the query "chi shenme hao": the first rule applies.\<close>

theorem C8_witness:
  "parseQuery noConfig q_chishenmehao None = Inr (str_food, str_beijing)
   \<and> extractFromQuery noConfig q_chishenmehao None = Inr (q_chishenmehao, str_beijing)
   \<and> js_includes (genericFallback (cleanKeywords q_chishenmehao)) str_chishenme"
proof -
  have e: "extractFromQuery noConfig q_chishenmehao None = Inr (q_chishenmehao, str_beijing)"
    by (simp add: chi_extract noConfig_def orStr_def)
  have p: "parseQuery noConfig q_chishenmehao None = Inr (str_food, str_beijing)"
    by (simp add: parseQuery_def e chi_keywords)
  have f: "str_food \<noteq> str_generic \<and> str_food \<noteq> str_kafeidian"
    by (simp add: str_food_def str_generic_def str_kafeidian_def)
  have g: "genericFallback (cleanKeywords q_chishenmehao) \<noteq> str_food"
    by (simp add: q_chishenmehao_def cleanKeywords_def genericFallback_def match_defs rx_defs
        str_defs startsWith_def Let_def)
  from C8_keyword_normalisation [of noConfig q_chishenmehao None] p e f g
  have "js_includes (genericFallback (cleanKeywords q_chishenmehao)) str_chishenme
        \<or> js_includes (genericFallback (cleanKeywords q_chishenmehao)) str_canting
        \<or> js_includes (genericFallback (cleanKeywords q_chishenmehao)) str_meishi"
    by (auto simp: Let_def)
  moreover have "\<not> js_includes (genericFallback (cleanKeywords q_chishenmehao)) str_canting
        \<and> \<not> js_includes (genericFallback (cleanKeywords q_chishenmehao)) str_meishi"
    by (simp add: q_chishenmehao_def cleanKeywords_def genericFallback_def match_defs rx_defs
        str_defs startsWith_def Let_def)
  ultimately show ?thesis using p e by blast
qed

text \<open>
  Claim C4 says that \<open>parseQuery\<close> never throws. Without a default city it does: in
  the query "go to ( play" the first pattern extracts the city \<open>(\<close>, which is
  accepted and put unescaped into the source of a regular expression, and the
  constructor throws a \<open>SyntaxError\<close> (a group is not closed).
\<close>

theorem C4_parseQuery_throws:
  "parseQuery cfg q_paren None = Inl syntaxError"
  by (simp add: parseQuery_def extractFromQuery_def truthy_def paren_departure paren_extract
      Let_def)

section \<open>Properties of \<open>getRecommendations\<close>\<close>

subsection \<open>Steps 1 and 2 never throw\<close>

lemma targetCityOf_nonempty: "targetCityOf cfg request \<noteq> []"
  by (simp add: targetCityOf_def orStr_nonempty str_beijing_nonempty)

lemma resolveQuery_eq:
  "resolveQuery cfg request =
     Inr (normalizeKeywords (genericFallback (cleanKeywords (js_trim (query request)))),
          targetCityOf cfg request)"
proof -
  have "orStr (destination request) (targetCityOf cfg request) = targetCityOf cfg request"
    by (simp add: targetCityOf_def orStr_idem)
  then show ?thesis
    by (simp add: resolveQuery_def parseQuery_default targetCityOf_nonempty)
qed

subsection \<open>The orchestrator never rejects\<close>

text \<open>
  The only exceptions that leave the narrative step, and so the body of the outer
  \<open>try\<close>, are the \<open>TypeError\<close>s of its handler: reading the message of
  \<open>null\<close> or \<open>undefined\<close>, and calling \<open>includes\<close> on a message that is
  \<open>undefined\<close>. They are \<open>Error\<close> objects, so the outer handler can read their
  message.
\<close>

lemma messageOf_Inl: "messageOf x = Inl e \<Longrightarrow> \<exists>m. e = JsError m"
  by (cases x) (auto simp: typeErrorReading_def)

lemma narrativeStage_error:
  "narrativeStage svc pf cfg request ps w fc st = (Inl e, st') \<Longrightarrow> \<exists>m. e = JsError m"
  by (auto simp: narrativeStage_def invoke_def Let_def typeErrorReading_def
      split: if_splits prod.splits sum.splits option.splits dest: messageOf_Inl)

lemma getRecommendationsTry_error:
  "getRecommendationsTry svc pf cfg request st = (Inl e, st') \<Longrightarrow> \<exists>m. e = JsError m"
  by (auto simp: getRecommendationsTry_def resolveQuery_eq
      split: if_splits prod.splits sum.splits dest: narrativeStage_error)




text \<open>
  Claim C1. For every request, every configuration and every behaviour of the two
  services, \<open>getRecommendations\<close> resolves to a result and never rejects; and every
  exception that is not caught inside the steps, that is, every exception that leaves
  the body of the outer \<open>try\<close>, is caught there and turned into the result whose
  summary is "huoqu tuijian shibai: " followed by the message of the exception, with
  no items and \<open>fromMock = false\<close>.
\<close>

theorem C1_never_rejects:
  "\<exists>r st'. getRecommendations svc pf cfg request st = (Inr r, st') \<and>
     (\<forall>err. fst (getRecommendationsTry svc pf cfg request st) = Inl err \<longrightarrow>
        (\<exists>m. messageOf err = Inr (Some m) \<and> summary r = str_fail @ m \<and> items r = [] \<and>
             fromMock r = Some False))"
proof -
  obtain res st' where t: "getRecommendationsTry svc pf cfg request st = (res, st')"
    by (cases "getRecommendationsTry svc pf cfg request st")
  show ?thesis
  proof (cases res)
    case (Inl e)
    with t obtain m where "e = JsError m" using getRecommendationsTry_error by blast
    with t Inl show ?thesis
      by (simp add: getRecommendations_def failureResult_def)
  next
    case (Inr r)
    with t show ?thesis by (simp add: getRecommendations_def)
  qed
qed

lemmas orch_defs = getRecommendations_def getRecommendationsTry_def searchStage_def
  weatherStage_def narrativeStage_def invoke_def isMock_def truthy_def Let_def

lemma liveConfig_live: "\<not> isMock liveConfig"
  by (simp add: isMock_def liveConfig_def)

lemma liveConfig_key: "truthy (amapKey liveConfig)"
  by (simp add: truthy_def liveConfig_def ascii_def)

lemma liveConfig_no_llm: "\<not> truthy (llmApiKey liveConfig)"
  by (simp add: truthy_def liveConfig_def noConfig_def)

text \<open>
  A run in which the body throws: five places were found, the narrative service
  rejects with \<open>null\<close>, and the handler of the narrative step cannot read the
  message of \<open>null\<close>. The \<open>TypeError\<close> of that reading reaches the outer handler,
  and its message is in the summary.
\<close>

theorem C1_witness:
  "fst (llm_generateRecommendation (demoServices (\<lambda>k. Inr fivePlaces) (Inl NullValue))
          [0x61] fivePlaces None ()) = Inl NullValue
   \<and> fst (getRecommendationsTry (demoServices (\<lambda>k. Inr fivePlaces) (Inl NullValue)) demoOps
          liveLlmConfig (demoRequest [0x61]) ([], ())) =
       Inl (JsError (ascii ''Cannot read properties of null (reading '' @ [0x27] @
                     ascii ''message'' @ [0x27] @ ascii '')''))
   \<and> fst (getRecommendations (demoServices (\<lambda>k. Inr fivePlaces) (Inl NullValue)) demoOps
          liveLlmConfig (demoRequest [0x61]) ([], ())) =
       Inr \<lparr>summary = str_fail @ ascii ''Cannot read properties of null (reading '' @ [0x27] @
                       ascii ''message'' @ [0x27] @ ascii '')'',
            items = [], fromMock = Some False, resWeather = None, weatherForecast = None\<rparr>"
proof -
  let ?svc = "demoServices (\<lambda>k. Inr fivePlaces) (Inl NullValue)"
  have l: "length fivePlaces = 5" and ne: "fivePlaces \<noteq> []" by (simp_all add: fivePlaces_def)
  have c: "fst (llm_generateRecommendation ?svc [0x61] fivePlaces None ()) = Inl NullValue"
    by (simp add: demoServices_def)
  have t: "fst (getRecommendationsTry ?svc demoOps liveLlmConfig (demoRequest [0x61]) ([], ())) =
       Inl (JsError (ascii ''Cannot read properties of null (reading '' @ [0x27] @
                     ascii ''message'' @ [0x27] @ ascii '')''))"
    by (simp add: orch_defs resolveQuery_eq l ne demoServices_def liveLlmConfig_def
        liveConfig_def noConfig_def targetCityOf_nonempty typeErrorReading_def ascii_def)
  from C1_never_rejects [of ?svc demoOps liveLlmConfig "demoRequest [0x61]" "([], ())"]
  obtain r st' where g: "getRecommendations ?svc demoOps liveLlmConfig (demoRequest [0x61])
        ([], ()) = (Inr r, st')"
    and e: "\<forall>err. fst (getRecommendationsTry ?svc demoOps liveLlmConfig (demoRequest [0x61])
                ([], ())) = Inl err \<longrightarrow>
              (\<exists>m. messageOf err = Inr (Some m) \<and> summary r = str_fail @ m \<and> items r = [] \<and>
                   fromMock r = Some False)"
    by blast
  from e t have "summary r = str_fail @ ascii ''Cannot read properties of null (reading '' @
        [0x27] @ ascii ''message'' @ [0x27] @ ascii '')'' \<and> items r = [] \<and>
        fromMock r = Some False"
    by auto
  moreover from g t have "resWeather r = None \<and> weatherForecast r = None"
    by (cases "getRecommendationsTry ?svc demoOps liveLlmConfig (demoRequest [0x61]) ([], ())")
       (auto simp: getRecommendations_def failureResult_def)
  ultimately have "r = \<lparr>summary = str_fail @ ascii ''Cannot read properties of null (reading '' @
        [0x27] @ ascii ''message'' @ [0x27] @ ascii '')'',
      items = [], fromMock = Some False, resWeather = None, weatherForecast = None\<rparr>"
    by simp
  with g c t show ?thesis by simp
qed

text \<open>
  An exception caught inside a step does not reach the outer handler: when the
  narrative service throws an \<open>Error\<close> with message \<open>x\<close> after five places were
  found, the handler of that step takes the deterministic summary, and the result
  carries the five places.
\<close>

lemma narrative_error_caught:
  "fst (llm_generateRecommendation (demoServices (\<lambda>k. Inr fivePlaces) (Inl (JsError [0x78])))
          [0x61] fivePlaces None ()) = Inl (JsError [0x78])
   \<and> fst (getRecommendations (demoServices (\<lambda>k. Inr fivePlaces) (Inl (JsError [0x78]))) demoOps
          liveLlmConfig (demoRequest [0x61]) ([], ())) =
       Inr \<lparr>summary = generateDefaultSummary demoOps fivePlaces [0x61], items = fivePlaces,
            fromMock = Some False, resWeather = None, weatherForecast = None\<rparr>
   \<and> generateDefaultSummary demoOps fivePlaces [0x61] \<noteq> str_fail @ [0x78]
   \<and> fivePlaces \<noteq> []"
proof (intro conjI)
  show "fst (llm_generateRecommendation (demoServices (\<lambda>k. Inr fivePlaces) (Inl (JsError [0x78])))
          [0x61] fivePlaces None ()) = Inl (JsError [0x78])"
    by (simp add: demoServices_def)
  have l: "length fivePlaces = 5" and ne: "fivePlaces \<noteq> []" by (simp_all add: fivePlaces_def)
  have c: "buildContext (demoRequest [0x61]) None None = None"
    by (simp add: buildContext_def demoRequest_def truthy_def)
  have i: "\<not> js_includes [0x78] str_Timeout \<and> \<not> js_includes [0x78] str_chaoshi"
    by (simp add: str_Timeout_def str_chaoshi_def startsWith_def ascii_def)
  show "fst (getRecommendations (demoServices (\<lambda>k. Inr fivePlaces) (Inl (JsError [0x78]))) demoOps
          liveLlmConfig (demoRequest [0x61]) ([], ())) =
       Inr \<lparr>summary = generateDefaultSummary demoOps fivePlaces [0x61], items = fivePlaces,
            fromMock = Some False, resWeather = None, weatherForecast = None\<rparr>"
    by (simp add: orch_defs resolveQuery_eq l c i ne demoServices_def liveLlmConfig_def
        liveConfig_def noConfig_def ascii_def targetCityOf_nonempty del: js_includes.simps)
       (simp add: demoRequest_def)
  show "generateDefaultSummary demoOps fivePlaces [0x61] \<noteq> str_fail @ [0x78]"
    by (simp add: generateDefaultSummary_def l str_found_def str_fail_def Let_def)
  show "fivePlaces \<noteq> []" by (simp add: fivePlaces_def)
qed

subsection \<open>Mock mode\<close>

lemma searchStage_mock: "isMock cfg \<Longrightarrow> searchStage svc cfg k c st = ([], st)"
  by (simp add: searchStage_def)

lemma weatherStage_mock: "isMock cfg \<Longrightarrow> weatherStage svc cfg c st = ((None, None), st)"
  by (simp add: weatherStage_def)

lemma narrativeStage_mock:
  "isMock cfg \<Longrightarrow>
   narrativeStage svc pf cfg request ps w fc st = (Inr (generateDefaultSummary pf ps (query request)), st)"
  by (simp add: narrativeStage_def)

text \<open>
  Claim C10. In mock mode the result is the same for every behaviour of the services,
  and no service is called (the calls and the world are left as they were): no items,
  no weather and no forecast, \<open>fromMock = true\<close>, and as summary the fixed sentence
  of the deterministic fallback around the query.
\<close>

theorem C10_mock_mode_result:
  "mockMode cfg = Some True \<Longrightarrow>
   getRecommendations svc pf cfg request st =
     (Inr \<lparr>summary = str_noRec1 @ query request @ str_noRec2, items = [], fromMock = Some True,
           resWeather = None, weatherForecast = None\<rparr>, st)"
proof -
  assume "mockMode cfg = Some True"
  then have m: "isMock cfg" by (simp add: isMock_def)
  then have "getRecommendationsTry svc pf cfg request st =
     (Inr \<lparr>summary = generateDefaultSummary pf [] (query request), items = [],
           fromMock = Some True, resWeather = None, weatherForecast = None\<rparr>, st)"
    by (simp add: getRecommendationsTry_def resolveQuery_eq searchStage_mock weatherStage_mock
        narrativeStage_mock)
  then show ?thesis
    by (simp add: getRecommendations_def generateDefaultSummary_def)
qed

theorem C10_witness:
  "mockMode mockConfig = Some True \<and>
   getRecommendations (demoServices twoPhase (Inr [])) demoOps mockConfig (demoRequest q_shanghai)
       ([], ()) =
     (Inr \<lparr>summary = str_noRec1 @ q_shanghai @ str_noRec2, items = [], fromMock = Some True,
           resWeather = None, weatherForecast = None\<rparr>, ([], ()))"
  using C10_mock_mode_result [of mockConfig "demoServices twoPhase (Inr [])" demoOps
      "demoRequest q_shanghai" "([], ())"]
  by (simp add: mockConfig_def noConfig_def demoRequest_def)

subsection \<open>The search step\<close>

lemma invoke_trace:
  "invoke c f st = (r, st') \<Longrightarrow> fst st' = fst st @ [c]"
  by (auto simp: invoke_def split: prod.splits)

lemma searchStage_trace:
  "searchStage svc cfg k c st = (ps, st') \<Longrightarrow>
   \<exists>new. fst st' = fst st @ new \<and> (\<forall>x \<in> set new. \<not> isWeatherCall x \<and> \<not> isNarrativeCall x)"
  by (auto simp: searchStage_def Let_def split: if_splits prod.splits sum.splits
      dest!: invoke_trace)

lemma searchStage_no_key:
  "\<not> truthy (amapKey cfg) \<Longrightarrow> searchStage svc cfg k c st = ([], st)"
  by (simp add: searchStage_def)

lemma searchStage_first_fails:
  "amap_searchPoi svc (searchKeywordsOf k) c (snd st) = (Inl e, w') \<Longrightarrow>
   fst (searchStage svc cfg k c st) = []"
  by (simp add: searchStage_def invoke_def Let_def)

lemma searchStage_second_fails:
  "mockMode cfg \<noteq> Some True \<Longrightarrow> truthy (amapKey cfg) \<Longrightarrow>
   amap_searchPoi svc (searchKeywordsOf k) c (snd st) = (Inr first, w1) \<Longrightarrow> length first < 5 \<Longrightarrow>
   amap_searchPoi svc str_jingdian c w1 = (Inl e, w2) \<Longrightarrow>
   fst (searchStage svc cfg k c st) = []"
  by (simp add: searchStage_def invoke_def Let_def isMock_def)

text \<open>
  Claim C5. In live mode, when the list of places is empty after the search step (also
  when there is no map key, so that the search is never called, or when the search
  throws), \<open>getRecommendations\<close> returns the summary for no places, no items and
  \<open>fromMock = false\<close>, and the calls it makes include no call of the weather methods
  and no call of the narrative.
\<close>

theorem C5_no_results_short_circuit:
  assumes live: "mockMode cfg \<noteq> Some True"
    and rq: "resolveQuery cfg request = Inr (kw, sc)"
    and empty: "\<not> truthy (amapKey cfg)
       \<or> (\<exists>e w'. amap_searchPoi svc (searchKeywordsOf kw) sc (snd st) = (Inl e, w'))
       \<or> fst (searchStage svc cfg kw sc st) = []"
  shows "\<exists>new w'. getRecommendations svc pf cfg request st =
           (Inr \<lparr>summary = str_noResults, items = [], fromMock = Some False,
                 resWeather = None, weatherForecast = None\<rparr>, (fst st @ new, w'))
         \<and> (\<forall>c \<in> set new. \<not> isWeatherCall c \<and> \<not> isNarrativeCall c)"
proof -
  from empty have e: "fst (searchStage svc cfg kw sc st) = []"
    using searchStage_no_key [of cfg svc kw sc st] searchStage_first_fails [of svc kw sc st _ _ cfg]
    by auto
  obtain ps st1 where s: "searchStage svc cfg kw sc st = (ps, st1)" by (cases "searchStage svc cfg kw sc st")
  with e have ps: "ps = []" by simp
  from searchStage_trace [OF s] obtain new where
    n: "fst st1 = fst st @ new" "\<forall>x \<in> set new. \<not> isWeatherCall x \<and> \<not> isNarrativeCall x" by blast
  from live rq s ps have "getRecommendations svc pf cfg request st = (Inr noResultsResult, st1)"
    by (simp add: getRecommendations_def getRecommendationsTry_def isMock_def)
  with n show ?thesis
    by (cases st1) (auto simp: noResultsResult_def)
qed

theorem C5_witness:
  "mockMode liveConfig \<noteq> Some True
   \<and> fst (searchStage (demoServices (\<lambda>k. Inr []) (Inr [])) liveConfig
            (normalizeKeywords (genericFallback (cleanKeywords (js_trim (query (demoRequest [0x61]))))))
            (targetCityOf liveConfig (demoRequest [0x61])) ([], ())) = []
   \<and> fst (getRecommendations (demoServices (\<lambda>k. Inr []) (Inr [])) demoOps liveConfig
            (demoRequest [0x61]) ([], ())) =
       Inr \<lparr>summary = str_noResults, items = [], fromMock = Some False,
            resWeather = None, weatherForecast = None\<rparr>"
proof -
  have live: "mockMode liveConfig \<noteq> Some True" by (simp add: liveConfig_def)
  have e: "fst (searchStage (demoServices (\<lambda>k. Inr []) (Inr [])) liveConfig
            (normalizeKeywords (genericFallback (cleanKeywords (js_trim (query (demoRequest [0x61]))))))
            (targetCityOf liveConfig (demoRequest [0x61])) ([], ())) = []"
    by (simp add: searchStage_def invoke_def demoServices_def mergePois_def Let_def)
  from C5_no_results_short_circuit [OF live resolveQuery_eq disjI2 [OF disjI2 [OF e]], of demoOps]
    live e
  show ?thesis by auto
qed

lemma broad_not_jingdian: "str_broad \<noteq> str_jingdian"
  by (simp add: str_broad_def str_jingdian_def)

lemma generic_keywords: "searchKeywordsOf str_generic = str_broad"
  by (simp add: searchKeywordsOf_def)

subsection \<open>The places of the result\<close>

lemma mergePois_eq:
  "mergePois first second = take 50 (first @ filter (\<lambda>p. name p \<notin> set (map name first)) second)"
  by (simp add: mergePois_def)


lemma distinct_take_names: "distinct (map name xs) \<Longrightarrow> distinct (map name (take n xs))"
  by (simp add: take_map [symmetric] distinct_take del: take_map)

lemma mergePois_distinct:
  assumes "distinct (map name first)" and "distinct (map name second)"
  shows "distinct (map name (mergePois first second))"
proof -
  let ?new = "filter (\<lambda>p. name p \<notin> set (map name first)) second"
  from assms(2) have "distinct (map name ?new)" by (simp add: distinct_map_filter)
  moreover have "\<And>x. x \<in> set (map name ?new) \<Longrightarrow> x \<notin> set (map name first)" by auto
  then have "set (map name first) \<inter> set (map name ?new) = {}" by blast
  ultimately have "distinct (map name (first @ ?new))" using assms(1) by simp
  then show ?thesis unfolding mergePois_eq by (rule distinct_take_names)
qed


















lemma sixPlaces:
  "mergePois [place [0x41], place [0x42], place [0x43]]
     [place [0x42], place [0x44], place [0x45], place [0x46]] =
   [place [0x41], place [0x42], place [0x43], place [0x44], place [0x45], place [0x46]]"
  by (simp add: mergePois_def place_def)

text \<open>
  Claim C6. In live mode with a map key, when the first-phase search answers with fewer
  than five places, the list after the search step is the first-phase answer in its
  order, followed by the second-phase places whose name is not among the first-phase
  names, in their order, cut to 50 entries. In particular a first-phase answer of three
  places and a second-phase answer of four, of which one has a first-phase name, merge
  to six places.
\<close>

theorem C6_merge_of_places:
  assumes live: "mockMode cfg \<noteq> Some True" and key: "truthy (amapKey cfg)"
    and s1: "amap_searchPoi svc (searchKeywordsOf kw) sc (snd st) = (Inr first, w1)"
    and s2: "amap_searchPoi svc str_jingdian sc w1 = (Inr second, w2)"
    and few: "length first < 5"
  shows "fst (searchStage svc cfg kw sc st) =
           take 50 (first @ filter (\<lambda>p. name p \<notin> set (map name first)) second) \<and>
         (length first = 3 \<and> length second = 4 \<and>
          length (filter (\<lambda>p. name p \<in> set (map name first)) second) = 1
          \<longrightarrow> length (fst (searchStage svc cfg kw sc st)) = 6)"
proof -
  let ?merged = "take 50 (first @ filter (\<lambda>p. name p \<notin> set (map name first)) second)"
  from live key s1 s2 few have s: "fst (searchStage svc cfg kw sc st) = ?merged"
    by (simp add: searchStage_def invoke_def Let_def isMock_def mergePois_def)
  have "length (filter (\<lambda>p. name p \<notin> set (map name first)) second)
        + length (filter (\<lambda>p. name p \<in> set (map name first)) second) = length second"
    using sum_length_filter_compl [of "\<lambda>p. name p \<in> set (map name first)" second] by simp
  with s show ?thesis by auto
qed

theorem C6_witness:
  "length [place [0x41], place [0x42], place [0x43]] < 5
   \<and> fst (searchStage (demoServices twoPhase (Inr [])) liveConfig str_generic str_beijing ([], ())) =
       [place [0x41], place [0x42], place [0x43], place [0x44], place [0x45], place [0x46]]
   \<and> length (fst (searchStage (demoServices twoPhase (Inr [])) liveConfig str_generic str_beijing
         ([], ()))) = 6"
proof -
  have live: "mockMode liveConfig \<noteq> Some True" and key: "truthy (amapKey liveConfig)"
    by (simp_all add: liveConfig_def noConfig_def truthy_def ascii_def)
  have s1: "amap_searchPoi (demoServices twoPhase (Inr [])) (searchKeywordsOf str_generic)
              str_beijing (snd ([], ())) = (Inr [place [0x41], place [0x42], place [0x43]], ())"
    by (simp add: demoServices_def twoPhase_def generic_keywords broad_not_jingdian)
  have s2: "amap_searchPoi (demoServices twoPhase (Inr [])) str_jingdian str_beijing () =
              (Inr [place [0x42], place [0x44], place [0x45], place [0x46]], ())"
    by (simp add: demoServices_def twoPhase_def)
  have few: "length [place [0x41], place [0x42], place [0x43]] < 5" by simp
  from C6_merge_of_places [OF live key s1 s2 few] few
  show ?thesis by (simp add: place_def)
qed

subsection \<open>The search city\<close>

text \<open>
  Claim C2 says that without a destination and a city in the request the city of the
  places search is the one inferred from the query. It is not: \<open>getRecommendations\<close>
  hands the target city, which is never empty, to \<open>parseQuery\<close> as its default, and
  with a default \<open>parseQuery\<close> extracts nothing. For the query "I want to go to
  Shanghai to play" and no configured default the two searches, and the weather calls,
  are made for Beijing, while \<open>parseQuery\<close> without a default returns Shanghai.
\<close>

theorem C2_search_city_is_default:
  "parseQuery liveConfig q_shanghai None = Inr (str_generic, [0x4E0A, 0x6D77])
   \<and> resolveQuery liveConfig (demoRequest q_shanghai) = Inr ([0x4E0A, 0x6D77, 0x73A9], str_beijing)
   \<and> fst (snd (getRecommendations (demoServices twoPhase (Inr [])) demoOps liveConfig
                 (demoRequest q_shanghai) ([], ()))) =
       [SearchPoi ([0x4E0A, 0x6D77, 0x73A9] @ str_broadSuffix) str_beijing,
        SearchPoi str_jingdian str_beijing,
        GetCityAdcode str_beijing, GetWeather str_beijing None,
        GetWeatherForecast str_beijing None]"
proof (intro conjI)
  let ?svc = "demoServices twoPhase (Inr [])"
  show "parseQuery liveConfig q_shanghai None = Inr (str_generic, [0x4E0A, 0x6D77])"
    by (rule shanghai_parse)
  have t: "targetCityOf liveConfig (demoRequest q_shanghai) = str_beijing"
    by (simp add: targetCityOf_def demoRequest_def liveConfig_def noConfig_def orStr_def)
  have q: "query (demoRequest q_shanghai) = q_shanghai" by (simp add: demoRequest_def)
  show r: "resolveQuery liveConfig (demoRequest q_shanghai) =
             Inr ([0x4E0A, 0x6D77, 0x73A9], str_beijing)"
    by (simp add: resolveQuery_eq t q shanghai_keywords)
  have k: "searchKeywordsOf [0x4E0A, 0x6D77, 0x73A9] = [0x4E0A, 0x6D77, 0x73A9] @ str_broadSuffix"
    by (simp add: searchKeywordsOf_def str_defs startsWith_def)
  have n: "0x4E0A # 0x6D77 # 0x73A9 # str_broadSuffix \<noteq> str_jingdian"
    by (simp add: str_jingdian_def)
  have s: "searchStage ?svc liveConfig [0x4E0A, 0x6D77, 0x73A9] str_beijing ([], ()) =
      ([place [0x41], place [0x42], place [0x43], place [0x44], place [0x45], place [0x46]],
       ([SearchPoi ([0x4E0A, 0x6D77, 0x73A9] @ str_broadSuffix) str_beijing,
         SearchPoi str_jingdian str_beijing], ()))"
    by (simp add: searchStage_def invoke_def liveConfig_live liveConfig_key k n twoPhase_def
        demoServices_def sixPlaces Let_def)
  have w: "\<And>tr. weatherStage ?svc liveConfig str_beijing (tr, ()) =
      ((None, None), (tr @ [GetCityAdcode str_beijing, GetWeather str_beijing None,
                            GetWeatherForecast str_beijing None], ()))"
    by (simp add: weatherStage_def invoke_def liveConfig_live liveConfig_key str_beijing_nonempty
        demoServices_def)
  have g: "\<And>ps st.
      narrativeStage ?svc demoOps liveConfig (demoRequest q_shanghai) ps None None st =
      (Inr (generateDefaultSummary demoOps ps q_shanghai), st)"
    by (simp add: narrativeStage_def liveConfig_no_llm q)
  show "fst (snd (getRecommendations ?svc demoOps liveConfig (demoRequest q_shanghai) ([], ()))) =
       [SearchPoi ([0x4E0A, 0x6D77, 0x73A9] @ str_broadSuffix) str_beijing,
        SearchPoi str_jingdian str_beijing,
        GetCityAdcode str_beijing, GetWeather str_beijing None,
        GetWeatherForecast str_beijing None]"
    by (simp add: getRecommendations_def getRecommendationsTry_def r s w g liveConfig_live)
qed

section \<open>Properties of the map service\<close>

subsection \<open>The places of a search are those of the answer\<close>

text \<open>
  \<open>searchPoi\<close> returns one place for each entry of the answer, in its order and with
  its name: how many places a search returns, and whether two have one name, is decided
  by the remote service (which is asked for pages of 50). When every answer has at most
  50 entries of different names, the services of production meet the condition under
  which the items of a result are at most 50 and of different names.
\<close>

lemma searchPoi_answer:
  assumes "searchPoi cfg pf net k c w = (Inr ps, w')"
  shows "\<exists>url params d.
           fst (httpGet net url params (timeoutOf cfg) w) = Inr d \<and> dataStatus d = str_one
           \<and> map name ps = map rawName (case dataPois d of None \<Rightarrow> [] | Some xs \<Rightarrow> xs)"
proof -
  let ?url = "orStr (amapBaseUrl cfg) str_amapBase @ str_placeText"
  let ?params = "[(ascii ''key'', orStr (amapKey cfg) []), (ascii ''keywords'', k),
                (ascii ''city'', orStr (Some c) (orStr (defaultCity cfg) str_beijing)),
                (ascii ''output'', ascii ''JSON''),
                (ascii ''offset'', ascii ''50''), (ascii ''page'', ascii ''1''),
                (ascii ''extensions'', ascii ''all'')]"
  obtain r w1 where h: "httpGet net ?url ?params (timeoutOf cfg) w = (r, w1)"
    by (cases "httpGet net ?url ?params (timeoutOf cfg) w")
  from assms h obtain d where "r = Inr d" and "dataStatus d = str_one"
    and "ps = map (toPoiItem pf (orStr (Some c) (orStr (defaultCity cfg) str_beijing)))
                (case dataPois d of None \<Rightarrow> [] | Some xs \<Rightarrow> xs)"
    by (auto simp: searchPoi_def Let_def split: if_splits sum.splits)
  moreover have "\<And>sc xs. map name (map (toPoiItem pf sc) xs) = map rawName xs"
    by (simp add: toPoiItem_def)
  ultimately show ?thesis using h by (metis fst_conv)
qed

lemma httpGet_answer:
  "fst (httpGet net url params t w) = Inr d \<Longrightarrow> \<exists>sent. net w url sent t = Inr d"
  by (auto simp: httpGet_def Let_def split: sum.splits prod.splits)

lemma liveServices_search_ok:
  assumes "\<forall>w url sent t d. net w url sent t = Inr d \<longrightarrow>
             (case dataPois d of None \<Rightarrow> True
              | Some xs \<Rightarrow> length xs \<le> 50 \<and> distinct (map rawName xs))"
  shows "\<forall>kw c w ps w'. amap_searchPoi (liveServices cfg pf net llm) kw c w = (Inr ps, w') \<longrightarrow>
           length ps \<le> 50 \<and> distinct (map name ps)"
proof (intro allI impI)
  fix kw c w ps w'
  assume "amap_searchPoi (liveServices cfg pf net llm) kw c w = (Inr ps, w')"
  then have "searchPoi cfg pf net kw c w = (Inr ps, w')" by (simp add: liveServices_def)
  from searchPoi_answer [OF this] obtain url params d where
    h: "fst (httpGet net url params (timeoutOf cfg) w) = Inr d" and
    n: "map name ps = map rawName (case dataPois d of None \<Rightarrow> [] | Some xs \<Rightarrow> xs)" by blast
  from httpGet_answer [OF h] obtain sent where "net w url sent (timeoutOf cfg) = Inr d" by blast
  with assms have
    "case dataPois d of None \<Rightarrow> True | Some xs \<Rightarrow> length xs \<le> 50 \<and> distinct (map rawName xs)"
    by blast
  then have "length (map name ps) \<le> 50 \<and> distinct (map name ps)"
    unfolding n by (cases "dataPois d") auto
  then show "length ps \<le> 50 \<and> distinct (map name ps)" by simp
qed

subsection \<open>The weather methods\<close>

lemma httpGet_thrown:
  "httpGet net url ps t w = (Inl err, w') \<Longrightarrow> \<exists>m. messageOf err = Inr (Some m)"
  by (auto simp: httpGet_def Let_def split: sum.splits prod.splits)

lemma getCityAdcode_shape:
  "\<exists>r w'. getCityAdcode cfg net c w = (Inr r, w') \<and>
     (r = None \<or>
      (\<exists>d g rest.
         fst (httpGet net (orStr (amapBaseUrl cfg) str_amapBase @ str_geocodeGeo)
                [(ascii ''key'', orStr (amapKey cfg) []), (ascii ''address'', c),
                 (ascii ''output'', ascii ''JSON'')] (timeoutOf cfg) w) = Inr d
         \<and> dataStatus d = str_one \<and> dataGeocodes d = Some (g # rest) \<and> r = geoAdcode g))"
proof (cases "truthy (amapKey cfg)")
  case False
  then show ?thesis by (simp add: getCityAdcode_def)
next
  case True
  let ?h = "httpGet net (orStr (amapBaseUrl cfg) str_amapBase @ str_geocodeGeo)
                [(ascii ''key'', orStr (amapKey cfg) []), (ascii ''address'', c),
                 (ascii ''output'', ascii ''JSON'')] (timeoutOf cfg) w"
  obtain res w1 where h: "?h = (res, w1)" by (cases ?h)
  show ?thesis
  proof (cases res)
    case (Inl err)
    with h obtain m where "messageOf err = Inr (Some m)" using httpGet_thrown by blast
    with True h Inl show ?thesis by (simp add: getCityAdcode_def Let_def)
  next
    case (Inr d)
    with True h show ?thesis
      by (auto simp: getCityAdcode_def Let_def split: option.splits list.splits)
  qed
qed

lemma getCityAdcode_resolves: "\<exists>r w'. getCityAdcode cfg net c w = (Inr r, w')"
  using getCityAdcode_shape [of cfg net c w] by blast

lemma cityParamOf_resolves: "\<exists>cp w'. cityParamOf cfg net c a w = (Inr cp, w')"
proof (cases "truthy a")
  case True
  then show ?thesis by (simp add: cityParamOf_def)
next
  case False
  from getCityAdcode_resolves obtain r w' where "getCityAdcode cfg net c w = (Inr r, w')" by blast
  with False show ?thesis by (simp add: cityParamOf_def)
qed

lemma weatherCatch_http:
  "httpGet net url ps t w = (Inl err, w') \<Longrightarrow> weatherCatch err = Inr None"
  using httpGet_thrown [of net url ps t w err w'] by (auto simp: weatherCatch_def)

lemma getWeather_shape:
  "\<exists>r w'. getWeather cfg net c a w = (Inr r, w') \<and>
     (r = None \<or>
      (\<exists>cp w1 d live rest.
         cityParamOf cfg net c a w = (Inr cp, w1)
         \<and> fst (httpGet net (orStr (amapBaseUrl cfg) str_amapBase @ str_weatherInfo)
                  (weatherParams cfg cp (ascii ''base'')) (timeoutOf cfg) w1) = Inr d
         \<and> dataStatus d = str_one \<and> dataLives d = Some (live # rest)
         \<and> r = Some (toWeatherInfo live)))"
proof (cases "truthy (amapKey cfg)")
  case False
  then show ?thesis by (simp add: getWeather_def)
next
  case True
  from cityParamOf_resolves obtain cp w1 where cp: "cityParamOf cfg net c a w = (Inr cp, w1)"
    by blast
  let ?h = "httpGet net (orStr (amapBaseUrl cfg) str_amapBase @ str_weatherInfo)
              (weatherParams cfg cp (ascii ''base'')) (timeoutOf cfg) w1"
  obtain res w2 where h: "?h = (res, w2)" by (cases ?h)
  show ?thesis
  proof (cases res)
    case (Inl err)
    with h have "weatherCatch err = (Inr None :: thrown + WeatherInfo option)"
      using weatherCatch_http by blast
    with True cp h Inl show ?thesis by (simp add: getWeather_def)
  next
    case (Inr d)
    with True cp h show ?thesis
      by (auto simp: getWeather_def split: option.splits list.splits)
  qed
qed

lemma getWeatherForecast_shape:
  "\<exists>r w'. getWeatherForecast cfg net c a w = (Inr r, w') \<and>
     (r = None \<or>
      (\<exists>cp w1 d forecast rest.
         cityParamOf cfg net c a w = (Inr cp, w1)
         \<and> fst (httpGet net (orStr (amapBaseUrl cfg) str_amapBase @ str_weatherInfo)
                  (weatherParams cfg cp (ascii ''all'')) (timeoutOf cfg) w1) = Inr d
         \<and> dataStatus d = str_one \<and> dataForecasts d = Some (forecast # rest)
         \<and> r = Some (map toWeatherForecast (casts forecast))))"
proof (cases "truthy (amapKey cfg)")
  case False
  then show ?thesis by (simp add: getWeatherForecast_def)
next
  case True
  from cityParamOf_resolves obtain cp w1 where cp: "cityParamOf cfg net c a w = (Inr cp, w1)"
    by blast
  let ?h = "httpGet net (orStr (amapBaseUrl cfg) str_amapBase @ str_weatherInfo)
              (weatherParams cfg cp (ascii ''all'')) (timeoutOf cfg) w1"
  obtain res w2 where h: "?h = (res, w2)" by (cases ?h)
  show ?thesis
  proof (cases res)
    case (Inl err)
    with h have "weatherCatch err = (Inr None :: thrown + WeatherForecast list option)"
      using weatherCatch_http by blast
    with True cp h Inl show ?thesis by (simp add: getWeatherForecast_def)
  next
    case (Inr d)
    with True cp h show ?thesis
      by (auto simp: getWeatherForecast_def split: option.splits list.splits)
  qed
qed

text \<open>
  Claim C9. For every configuration, network, city, area code and world,
  \<open>getCityAdcode\<close>, \<open>getWeather\<close> and \<open>getWeatherForecast\<close> resolve and never
  reject; and each resolves to \<open>null\<close> unless its request was answered (no transport
  failure) with status \<open>'1'\<close> and a list of results that is not empty, in which case
  the result is made of the first entry of the list.
\<close>

theorem C9_weather_adapter_returns_null:
  "(\<exists>r w'. getCityAdcode cfg net c w = (Inr r, w') \<and>
     (r = None \<or>
      (\<exists>d g rest.
         fst (httpGet net (orStr (amapBaseUrl cfg) str_amapBase @ str_geocodeGeo)
                [(ascii ''key'', orStr (amapKey cfg) []), (ascii ''address'', c),
                 (ascii ''output'', ascii ''JSON'')] (timeoutOf cfg) w) = Inr d
         \<and> dataStatus d = str_one \<and> dataGeocodes d = Some (g # rest) \<and> r = geoAdcode g)))
   \<and> (\<exists>r w'. getWeather cfg net c a w = (Inr r, w') \<and>
     (r = None \<or>
      (\<exists>cp w1 d live rest.
         cityParamOf cfg net c a w = (Inr cp, w1)
         \<and> fst (httpGet net (orStr (amapBaseUrl cfg) str_amapBase @ str_weatherInfo)
                  (weatherParams cfg cp (ascii ''base'')) (timeoutOf cfg) w1) = Inr d
         \<and> dataStatus d = str_one \<and> dataLives d = Some (live # rest)
         \<and> r = Some (toWeatherInfo live))))
   \<and> (\<exists>r w'. getWeatherForecast cfg net c a w = (Inr r, w') \<and>
     (r = None \<or>
      (\<exists>cp w1 d forecast rest.
         cityParamOf cfg net c a w = (Inr cp, w1)
         \<and> fst (httpGet net (orStr (amapBaseUrl cfg) str_amapBase @ str_weatherInfo)
                  (weatherParams cfg cp (ascii ''all'')) (timeoutOf cfg) w1) = Inr d
         \<and> dataStatus d = str_one \<and> dataForecasts d = Some (forecast # rest)
         \<and> r = Some (map toWeatherForecast (casts forecast)))))"
  using getCityAdcode_shape [of cfg net c w] getWeather_shape [of cfg net c a w]
    getWeatherForecast_shape [of cfg net c a w]
  by (intro conjI)

end
